theory Spec2Isabelle
  imports Main
begin

section \<open>Data model\<close>

text \<open>
  The actions of \<^verbatim>\<open>src/actions/index.ts\<close> over the two tables of the schema file.
  A \<^verbatim>\<open>Date\<close> is its epoch value. A column declared \<^verbatim>\<open>optional\<close> holds
  \<open>None\<close> for SQL NULL. The column \<^verbatim>\<open>id\<close> of each table is written \<open>p_id\<close> and
  \<open>d_id\<close>; the columns the two tables share carry the same prefixes, and so does
  \<^verbatim>\<open>notes\<close>.
\<close>

type_synonym Date = int

record User =
  user_id :: string

record Locals =
  user :: "User option"

record ActionAPIContext =
  locals :: "Locals option"

text \<open>
  \<open>UNAUTHORIZED\<close> and \<open>NOT_FOUND\<close> are the codes of the two \<^verbatim>\<open>ActionError\<close>s the
  handlers throw. \<open>CONSTRAINT\<close> is the exception of the store when a statement violates
  a constraint the schema declares (the primary key of a table, the reference of
  \<^verbatim>\<open>CardDesigns.profileId\<close>); the handlers do not catch it.
\<close>

datatype error = UNAUTHORIZED | NOT_FOUND | CONSTRAINT

record CardProfile =
  p_id :: string
  p_userId :: string
  profileName :: string
  fullName :: string
  jobTitle :: "string option"
  companyName :: "string option"
  email :: "string option"
  phone :: "string option"
  secondaryPhone :: "string option"
  website :: "string option"
  addressLine1 :: "string option"
  addressLine2 :: "string option"
  city :: "string option"
  state :: "string option"
  country :: "string option"
  postalCode :: "string option"
  p_notes :: "string option"
  isDefault :: bool
  p_createdAt :: Date
  p_updatedAt :: Date

record CardDesign =
  d_id :: string
  profileId :: string
  d_userId :: string
  designName :: "string option"
  templateKey :: "string option"
  colorPalette :: "string option"
  fontConfig :: "string option"
  layoutConfig :: "string option"
  logoUrl :: "string option"
  isFavorite :: bool
  isPrimaryDesign :: bool
  d_createdAt :: Date
  d_updatedAt :: Date

text \<open>
  The store: the rows of each table in insertion order. \<open>foreignKeys\<close> says whether the
  store enforces the reference from \<^verbatim>\<open>CardDesigns.profileId\<close> to \<^verbatim>\<open>CardProfiles.id\<close>
  that the schema declares (a setting of the database engine, which the source does not
  fix); the schema gives the reference no \<^verbatim>\<open>ON DELETE\<close> action.
\<close>

record db =
  CardProfiles :: "CardProfile list"
  CardDesigns :: "CardDesign list"
  foreignKeys :: bool

text \<open>
  What a handler reads from its environment: \<open>uuid\<close> is the value of
  \<^verbatim>\<open>crypto.randomUUID()\<close>, and \<open>date k\<close> the value of the \<open>k\<close>-th evaluation of
  \<^verbatim>\<open>new Date()\<close> in the request, counted from 0.
\<close>

record Env =
  uuid :: string
  date :: "nat \<Rightarrow> Date"

subsection \<open>Inputs of the actions, as their schemas give them\<close>

text \<open>A key declared \<^verbatim>\<open>optional()\<close> is \<open>None\<close> when it is absent or undefined.\<close>

record CreateProfileInput =
  cp_id :: "string option"
  cp_profileName :: string
  cp_fullName :: string
  cp_jobTitle :: "string option"
  cp_companyName :: "string option"
  cp_email :: "string option"
  cp_phone :: "string option"
  cp_secondaryPhone :: "string option"
  cp_website :: "string option"
  cp_addressLine1 :: "string option"
  cp_addressLine2 :: "string option"
  cp_city :: "string option"
  cp_state :: "string option"
  cp_country :: "string option"
  cp_postalCode :: "string option"
  cp_notes :: "string option"
  cp_isDefault :: "bool option"

record UpdateProfileInput =
  up_id :: string
  up_profileName :: "string option"
  up_fullName :: "string option"
  up_jobTitle :: "string option"
  up_companyName :: "string option"
  up_email :: "string option"
  up_phone :: "string option"
  up_secondaryPhone :: "string option"
  up_website :: "string option"
  up_addressLine1 :: "string option"
  up_addressLine2 :: "string option"
  up_city :: "string option"
  up_state :: "string option"
  up_country :: "string option"
  up_postalCode :: "string option"
  up_notes :: "string option"
  up_isDefault :: "bool option"

record DeleteProfileInput =
  dp_id :: string

record CreateDesignInput =
  cd_id :: "string option"
  cd_profileId :: string
  cd_designName :: "string option"
  cd_templateKey :: "string option"
  cd_colorPalette :: "string option"
  cd_fontConfig :: "string option"
  cd_layoutConfig :: "string option"
  cd_logoUrl :: "string option"
  cd_isFavorite :: "bool option"
  cd_isPrimaryDesign :: "bool option"

record UpdateDesignInput =
  ud_id :: string
  ud_profileId :: string
  ud_designName :: "string option"
  ud_templateKey :: "string option"
  ud_colorPalette :: "string option"
  ud_fontConfig :: "string option"
  ud_layoutConfig :: "string option"
  ud_logoUrl :: "string option"
  ud_isFavorite :: "bool option"
  ud_isPrimaryDesign :: "bool option"

record ListDesignsInput =
  ld_profileId :: "string option"

section \<open>JavaScript values in conditions\<close>

text \<open>
  \<^verbatim>\<open>if (b)\<close> on an optional boolean holds for \<^verbatim>\<open>true\<close> only; on an optional string
  it holds for every string but the empty one. \<^verbatim>\<open>b ?? false\<close> replaces undefined.
\<close>

definition truthy :: "bool option \<Rightarrow> bool" where
  "truthy b = (b = Some True)"

definition truthyText :: "string option \<Rightarrow> bool" where
  "truthyText s = (case s of None \<Rightarrow> False | Some t \<Rightarrow> t \<noteq> [])"

definition orFalse :: "bool option \<Rightarrow> bool" where
  "orFalse b = (case b of None \<Rightarrow> False | Some v \<Rightarrow> v)"

text \<open>\<^verbatim>\<open>const [x] = rows\<close>: the first row, undefined when there is none.\<close>

definition first :: "'a list \<Rightarrow> 'a option" where
  "first rows = (case rows of [] \<Rightarrow> None | x # _ \<Rightarrow> Some x)"

section \<open>The statements of the store\<close>

text \<open>\<^verbatim>\<open>select().from(T).where(c)\<close>, and the same with \<^verbatim>\<open>limit(1)\<close> read by
  \<^verbatim>\<open>const [x]\<close>.\<close>

definition selectProfiles :: "(CardProfile \<Rightarrow> bool) \<Rightarrow> db \<Rightarrow> CardProfile list" where
  "selectProfiles c s = filter c (CardProfiles s)"

definition selectDesigns :: "(CardDesign \<Rightarrow> bool) \<Rightarrow> db \<Rightarrow> CardDesign list" where
  "selectDesigns c s = filter c (CardDesigns s)"

text \<open>\<^verbatim>\<open>update(T).set(f).where(c)\<close>: the table after it, and the rows it returns.\<close>

definition updateProfiles :: "(CardProfile \<Rightarrow> bool) \<Rightarrow> (CardProfile \<Rightarrow> CardProfile) \<Rightarrow> db \<Rightarrow> db" where
  "updateProfiles c f s = s\<lparr>CardProfiles := map (\<lambda>p. if c p then f p else p) (CardProfiles s)\<rparr>"

definition updatedProfiles :: "(CardProfile \<Rightarrow> bool) \<Rightarrow> (CardProfile \<Rightarrow> CardProfile) \<Rightarrow> db \<Rightarrow> CardProfile list" where
  "updatedProfiles c f s = map f (filter c (CardProfiles s))"

definition updateDesigns :: "(CardDesign \<Rightarrow> bool) \<Rightarrow> (CardDesign \<Rightarrow> CardDesign) \<Rightarrow> db \<Rightarrow> db" where
  "updateDesigns c f s = s\<lparr>CardDesigns := map (\<lambda>d. if c d then f d else d) (CardDesigns s)\<rparr>"

definition updatedDesigns :: "(CardDesign \<Rightarrow> bool) \<Rightarrow> (CardDesign \<Rightarrow> CardDesign) \<Rightarrow> db \<Rightarrow> CardDesign list" where
  "updatedDesigns c f s = map f (filter c (CardDesigns s))"

text \<open>\<^verbatim>\<open>insert(T).values(row).returning()\<close>: refused when the primary key is taken, and
  for a design when the store enforces the reference and no profile has its
  \<^verbatim>\<open>profileId\<close>.\<close>

definition insertProfile :: "CardProfile \<Rightarrow> db \<Rightarrow> (error + CardProfile) \<times> db" where
  "insertProfile row s =
     (if p_id row \<in> set (map p_id (CardProfiles s)) then (Inl CONSTRAINT, s)
      else (Inr row, s\<lparr>CardProfiles := CardProfiles s @ [row]\<rparr>))"

definition insertDesign :: "CardDesign \<Rightarrow> db \<Rightarrow> (error + CardDesign) \<times> db" where
  "insertDesign row s =
     (if d_id row \<in> set (map d_id (CardDesigns s)) then (Inl CONSTRAINT, s)
      else if foreignKeys s \<and> profileId row \<notin> set (map p_id (CardProfiles s))
      then (Inl CONSTRAINT, s)
      else (Inr row, s\<lparr>CardDesigns := CardDesigns s @ [row]\<rparr>))"

text \<open>\<^verbatim>\<open>delete(CardProfiles).where(c).returning()\<close>: refused when the store enforces the
  reference and a design still refers to a row it would delete.\<close>

definition deleteProfiles :: "(CardProfile \<Rightarrow> bool) \<Rightarrow> db \<Rightarrow> (error + CardProfile list) \<times> db" where
  "deleteProfiles c s =
     (let deleted = filter c (CardProfiles s) in
      if foreignKeys s \<and> list_ex (\<lambda>d. profileId d \<in> set (map p_id deleted)) (CardDesigns s)
      then (Inl CONSTRAINT, s)
      else (Inr deleted, s\<lparr>CardProfiles := filter (\<lambda>p. \<not> c p) (CardProfiles s)\<rparr>))"

section \<open>requireUser\<close>

text \<open>\<^verbatim>\<open>locals?.user\<close>\<close>

definition contextUser :: "ActionAPIContext \<Rightarrow> User option" where
  "contextUser context = (case locals context of None \<Rightarrow> None | Some l \<Rightarrow> user l)"

definition requireUser :: "ActionAPIContext \<Rightarrow> error + User" where
  "requireUser context =
     (case contextUser context of None \<Rightarrow> Inl UNAUTHORIZED | Some u \<Rightarrow> Inr u)"

section \<open>Profile actions\<close>

definition clearDefault :: "Date \<Rightarrow> CardProfile \<Rightarrow> CardProfile" where
  "clearDefault t p = p\<lparr>isDefault := False, p_updatedAt := t\<rparr>"

definition createProfile ::
  "ActionAPIContext \<Rightarrow> Env \<Rightarrow> CreateProfileInput \<Rightarrow> db \<Rightarrow> (error + CardProfile) \<times> db" where
  "createProfile context env input s =
     (case requireUser context of
        Inl e \<Rightarrow> (Inl e, s)
      | Inr u \<Rightarrow>
          let s1 = (if truthy (cp_isDefault input)
                    then updateProfiles (\<lambda>p. p_userId p = user_id u) (clearDefault (date env 0)) s
                    else s);
              k = (if truthy (cp_isDefault input) then 1 else 0)
          in insertProfile
               \<lparr> p_id = (case cp_id input of None \<Rightarrow> uuid env | Some i \<Rightarrow> i),
                 p_userId = user_id u,
                 profileName = cp_profileName input,
                 fullName = cp_fullName input,
                 jobTitle = cp_jobTitle input,
                 companyName = cp_companyName input,
                 email = cp_email input,
                 phone = cp_phone input,
                 secondaryPhone = cp_secondaryPhone input,
                 website = cp_website input,
                 addressLine1 = cp_addressLine1 input,
                 addressLine2 = cp_addressLine2 input,
                 city = cp_city input,
                 state = cp_state input,
                 country = cp_country input,
                 postalCode = cp_postalCode input,
                 p_notes = cp_notes input,
                 isDefault = orFalse (cp_isDefault input),
                 p_createdAt = date env k,
                 p_updatedAt = date env (k + 1) \<rparr>
               s1)"

text \<open>
  The keys of \<^verbatim>\<open>rest\<close> in \<^verbatim>\<open>updateProfile\<close>, and the values an entry can hold.
  \<open>profileEntries\<close> is \<^verbatim>\<open>Object.entries(rest)\<close> in the order of the schema, with
  \<open>None\<close> for a key that is absent or undefined; \<open>defined\<close> is the loop that copies
  the entries that are not undefined into \<^verbatim>\<open>updateData\<close>.
\<close>

datatype val = Text string | Bool bool

datatype profileKey =
  K_profileName | K_fullName | K_jobTitle | K_companyName | K_email | K_phone
  | K_secondaryPhone | K_website | K_addressLine1 | K_addressLine2 | K_city | K_state
  | K_country | K_postalCode | K_notes | K_isDefault

definition profileEntries :: "UpdateProfileInput \<Rightarrow> (profileKey \<times> val option) list" where
  "profileEntries input =
     [(K_profileName, map_option Text (up_profileName input)),
      (K_fullName, map_option Text (up_fullName input)),
      (K_jobTitle, map_option Text (up_jobTitle input)),
      (K_companyName, map_option Text (up_companyName input)),
      (K_email, map_option Text (up_email input)),
      (K_phone, map_option Text (up_phone input)),
      (K_secondaryPhone, map_option Text (up_secondaryPhone input)),
      (K_website, map_option Text (up_website input)),
      (K_addressLine1, map_option Text (up_addressLine1 input)),
      (K_addressLine2, map_option Text (up_addressLine2 input)),
      (K_city, map_option Text (up_city input)),
      (K_state, map_option Text (up_state input)),
      (K_country, map_option Text (up_country input)),
      (K_postalCode, map_option Text (up_postalCode input)),
      (K_notes, map_option Text (up_notes input)),
      (K_isDefault, map_option Bool (up_isDefault input))]"

fun defined :: "('k \<times> val option) list \<Rightarrow> ('k \<times> val) list" where
  "defined [] = []"
| "defined ((k, None) # es) = defined es"
| "defined ((k, Some v) # es) = (k, v) # defined es"

text \<open>One assignment of \<^verbatim>\<open>set({...updateData})\<close> on a row. The schema of the input
  gives every key a value of its column's type; another value leaves the row as it is.\<close>

fun assignProfile :: "profileKey \<times> val \<Rightarrow> CardProfile \<Rightarrow> CardProfile" where
  "assignProfile (K_profileName, Text v) p = p\<lparr>profileName := v\<rparr>"
| "assignProfile (K_fullName, Text v) p = p\<lparr>fullName := v\<rparr>"
| "assignProfile (K_jobTitle, Text v) p = p\<lparr>jobTitle := Some v\<rparr>"
| "assignProfile (K_companyName, Text v) p = p\<lparr>companyName := Some v\<rparr>"
| "assignProfile (K_email, Text v) p = p\<lparr>email := Some v\<rparr>"
| "assignProfile (K_phone, Text v) p = p\<lparr>phone := Some v\<rparr>"
| "assignProfile (K_secondaryPhone, Text v) p = p\<lparr>secondaryPhone := Some v\<rparr>"
| "assignProfile (K_website, Text v) p = p\<lparr>website := Some v\<rparr>"
| "assignProfile (K_addressLine1, Text v) p = p\<lparr>addressLine1 := Some v\<rparr>"
| "assignProfile (K_addressLine2, Text v) p = p\<lparr>addressLine2 := Some v\<rparr>"
| "assignProfile (K_city, Text v) p = p\<lparr>city := Some v\<rparr>"
| "assignProfile (K_state, Text v) p = p\<lparr>state := Some v\<rparr>"
| "assignProfile (K_country, Text v) p = p\<lparr>country := Some v\<rparr>"
| "assignProfile (K_postalCode, Text v) p = p\<lparr>postalCode := Some v\<rparr>"
| "assignProfile (K_notes, Text v) p = p\<lparr>p_notes := Some v\<rparr>"
| "assignProfile (K_isDefault, Bool v) p = p\<lparr>isDefault := v\<rparr>"
| "assignProfile _ p = p"

definition setProfile :: "(profileKey \<times> val) list \<Rightarrow> Date \<Rightarrow> CardProfile \<Rightarrow> CardProfile" where
  "setProfile updateData t p = (fold assignProfile updateData p)\<lparr>p_updatedAt := t\<rparr>"

definition updateProfile ::
  "ActionAPIContext \<Rightarrow> Env \<Rightarrow> UpdateProfileInput \<Rightarrow> db \<Rightarrow> (error + CardProfile option) \<times> db" where
  "updateProfile context env input s =
     (case requireUser context of
        Inl e \<Rightarrow> (Inl e, s)
      | Inr u \<Rightarrow>
          (case first (selectProfiles (\<lambda>p. p_id p = up_id input \<and> p_userId p = user_id u) s) of
             None \<Rightarrow> (Inl NOT_FOUND, s)
           | Some existing \<Rightarrow>
               let s1 = (if truthy (up_isDefault input)
                         then updateProfiles (\<lambda>p. p_userId p = user_id u \<and> isDefault p = True)
                                (clearDefault (date env 0)) s
                         else s);
                   k = (if truthy (up_isDefault input) then 1 else 0);
                   updateData = defined (profileEntries input)
               in if length updateData = 0 then (Inr (Some existing), s1)
                  else (Inr (first (updatedProfiles
                                      (\<lambda>p. p_id p = up_id input \<and> p_userId p = user_id u)
                                      (setProfile updateData (date env k)) s1)),
                        updateProfiles (\<lambda>p. p_id p = up_id input \<and> p_userId p = user_id u)
                          (setProfile updateData (date env k)) s1)))"

definition listProfiles :: "ActionAPIContext \<Rightarrow> db \<Rightarrow> (error + CardProfile list) \<times> db" where
  "listProfiles context s =
     (case requireUser context of
        Inl e \<Rightarrow> (Inl e, s)
      | Inr u \<Rightarrow> (Inr (selectProfiles (\<lambda>p. p_userId p = user_id u) s), s))"

definition deleteProfile ::
  "ActionAPIContext \<Rightarrow> DeleteProfileInput \<Rightarrow> db \<Rightarrow> (error + CardProfile) \<times> db" where
  "deleteProfile context input s =
     (case requireUser context of
        Inl e \<Rightarrow> (Inl e, s)
      | Inr u \<Rightarrow>
          (case deleteProfiles (\<lambda>p. p_id p = dp_id input \<and> p_userId p = user_id u) s of
             (Inl e, s1) \<Rightarrow> (Inl e, s1)
           | (Inr rows, s1) \<Rightarrow>
               (case first rows of
                  None \<Rightarrow> (Inl NOT_FOUND, s1)
                | Some deleted \<Rightarrow> (Inr deleted, s1))))"

section \<open>Design actions\<close>

definition clearPrimary :: "Date \<Rightarrow> CardDesign \<Rightarrow> CardDesign" where
  "clearPrimary t d = d\<lparr>isPrimaryDesign := False, d_updatedAt := t\<rparr>"

definition createDesign ::
  "ActionAPIContext \<Rightarrow> Env \<Rightarrow> CreateDesignInput \<Rightarrow> db \<Rightarrow> (error + CardDesign) \<times> db" where
  "createDesign context env input s =
     (case requireUser context of
        Inl e \<Rightarrow> (Inl e, s)
      | Inr u \<Rightarrow>
          (case first (selectProfiles
                         (\<lambda>p. p_id p = cd_profileId input \<and> p_userId p = user_id u) s) of
             None \<Rightarrow> (Inl NOT_FOUND, s)
           | Some profile \<Rightarrow>
               let s1 = (if truthy (cd_isPrimaryDesign input)
                         then updateDesigns
                                (\<lambda>d. profileId d = cd_profileId input \<and> d_userId d = user_id u)
                                (clearPrimary (date env 0)) s
                         else s);
                   k = (if truthy (cd_isPrimaryDesign input) then 1 else 0)
               in insertDesign
                    \<lparr> d_id = (case cd_id input of None \<Rightarrow> uuid env | Some i \<Rightarrow> i),
                      profileId = cd_profileId input,
                      d_userId = user_id u,
                      designName = cd_designName input,
                      templateKey = cd_templateKey input,
                      colorPalette = cd_colorPalette input,
                      fontConfig = cd_fontConfig input,
                      layoutConfig = cd_layoutConfig input,
                      logoUrl = cd_logoUrl input,
                      isFavorite = orFalse (cd_isFavorite input),
                      isPrimaryDesign = orFalse (cd_isPrimaryDesign input),
                      d_createdAt = date env k,
                      d_updatedAt = date env (k + 1) \<rparr>
                    s1))"

text \<open>The keys of \<^verbatim>\<open>rest\<close> in \<^verbatim>\<open>updateDesign\<close> (\<^verbatim>\<open>id\<close> and \<^verbatim>\<open>profileId\<close> are taken
  out of it), its entries, and one assignment of \<^verbatim>\<open>set\<close> on a row.\<close>

datatype designKey =
  K_designName | K_templateKey | K_colorPalette | K_fontConfig | K_layoutConfig
  | K_logoUrl | K_isFavorite | K_isPrimaryDesign

definition designEntries :: "UpdateDesignInput \<Rightarrow> (designKey \<times> val option) list" where
  "designEntries input =
     [(K_designName, map_option Text (ud_designName input)),
      (K_templateKey, map_option Text (ud_templateKey input)),
      (K_colorPalette, map_option Text (ud_colorPalette input)),
      (K_fontConfig, map_option Text (ud_fontConfig input)),
      (K_layoutConfig, map_option Text (ud_layoutConfig input)),
      (K_logoUrl, map_option Text (ud_logoUrl input)),
      (K_isFavorite, map_option Bool (ud_isFavorite input)),
      (K_isPrimaryDesign, map_option Bool (ud_isPrimaryDesign input))]"

fun assignDesign :: "designKey \<times> val \<Rightarrow> CardDesign \<Rightarrow> CardDesign" where
  "assignDesign (K_designName, Text v) d = d\<lparr>designName := Some v\<rparr>"
| "assignDesign (K_templateKey, Text v) d = d\<lparr>templateKey := Some v\<rparr>"
| "assignDesign (K_colorPalette, Text v) d = d\<lparr>colorPalette := Some v\<rparr>"
| "assignDesign (K_fontConfig, Text v) d = d\<lparr>fontConfig := Some v\<rparr>"
| "assignDesign (K_layoutConfig, Text v) d = d\<lparr>layoutConfig := Some v\<rparr>"
| "assignDesign (K_logoUrl, Text v) d = d\<lparr>logoUrl := Some v\<rparr>"
| "assignDesign (K_isFavorite, Bool v) d = d\<lparr>isFavorite := v\<rparr>"
| "assignDesign (K_isPrimaryDesign, Bool v) d = d\<lparr>isPrimaryDesign := v\<rparr>"
| "assignDesign _ d = d"

definition setDesign :: "(designKey \<times> val) list \<Rightarrow> Date \<Rightarrow> CardDesign \<Rightarrow> CardDesign" where
  "setDesign updateData t d = (fold assignDesign updateData d)\<lparr>d_updatedAt := t\<rparr>"

definition updateDesign ::
  "ActionAPIContext \<Rightarrow> Env \<Rightarrow> UpdateDesignInput \<Rightarrow> db \<Rightarrow> (error + CardDesign option) \<times> db" where
  "updateDesign context env input s =
     (case requireUser context of
        Inl e \<Rightarrow> (Inl e, s)
      | Inr u \<Rightarrow>
          (case first (selectProfiles
                         (\<lambda>p. p_id p = ud_profileId input \<and> p_userId p = user_id u) s) of
             None \<Rightarrow> (Inl NOT_FOUND, s)
           | Some profile \<Rightarrow>
               (case first (selectDesigns
                              (\<lambda>d. d_id d = ud_id input \<and> d_userId d = user_id u) s) of
                  None \<Rightarrow> (Inl NOT_FOUND, s)
                | Some existing \<Rightarrow>
                    if profileId existing \<noteq> ud_profileId input then (Inl NOT_FOUND, s)
                    else
                      let s1 = (if truthy (ud_isPrimaryDesign input)
                                then updateDesigns
                                       (\<lambda>d. profileId d = ud_profileId input \<and>
                                             d_userId d = user_id u)
                                       (clearPrimary (date env 0)) s
                                else s);
                          k = (if truthy (ud_isPrimaryDesign input) then 1 else 0);
                          updateData = defined (designEntries input)
                      in if length updateData = 0 then (Inr (Some existing), s1)
                         else (Inr (first (updatedDesigns (\<lambda>d. d_id d = ud_id input)
                                             (setDesign updateData (date env k)) s1)),
                               updateDesigns (\<lambda>d. d_id d = ud_id input)
                                 (setDesign updateData (date env k)) s1))))"

text \<open>\<^verbatim>\<open>input?.profileId\<close> of \<^verbatim>\<open>listDesigns\<close>, whose whole input is optional.\<close>

definition inputProfileId :: "ListDesignsInput option \<Rightarrow> string option" where
  "inputProfileId input = (case input of None \<Rightarrow> None | Some i \<Rightarrow> ld_profileId i)"

definition listDesigns ::
  "ActionAPIContext \<Rightarrow> ListDesignsInput option \<Rightarrow> db \<Rightarrow> (error + CardDesign list) \<times> db" where
  "listDesigns context input s =
     (case requireUser context of
        Inl e \<Rightarrow> (Inl e, s)
      | Inr u \<Rightarrow>
          let profiles = selectProfiles (\<lambda>p. p_userId p = user_id u) s;
              allowedProfileIds = set (map p_id profiles)
          in if truthyText (inputProfileId input) \<and>
                \<not> (case inputProfileId input of None \<Rightarrow> False
                   | Some i \<Rightarrow> i \<in> allowedProfileIds)
             then (Inl NOT_FOUND, s)
             else
               let designs = selectDesigns (\<lambda>d. d_userId d = user_id u) s;
                   filtered =
                     (if truthyText (inputProfileId input)
                      then filter (\<lambda>d. Some (profileId d) = inputProfileId input) designs
                      else filter (\<lambda>d. profileId d \<in> allowedProfileIds) designs)
               in (Inr filtered, s))"

section \<open>The exported object \<^verbatim>\<open>server\<close>\<close>

text \<open>
  One request for each key of \<^verbatim>\<open>server\<close>, with the input of its action, and what
  the action returns. \<open>server\<close> runs the handler of the key. \<open>entityOf\<close> and \<open>groupOf\<close>
  read, from the name of a key, the entity it is about and the group of operations it
  belongs to.
\<close>

datatype request =
  CreateProfile CreateProfileInput
  | UpdateProfile UpdateProfileInput
  | ListProfiles
  | DeleteProfile DeleteProfileInput
  | CreateDesign CreateDesignInput
  | UpdateDesign UpdateDesignInput
  | ListDesigns "ListDesignsInput option"

datatype response =
  ProfileResult "CardProfile option"
  | ProfilesResult "CardProfile list"
  | DesignResult "CardDesign option"
  | DesignsResult "CardDesign list"

definition returns :: "('a \<Rightarrow> response) \<Rightarrow> (error + 'a) \<times> db \<Rightarrow> (error + response) \<times> db" where
  "returns wrap r = (map_sum (\<lambda>e. e) wrap (fst r), snd r)"

fun server :: "ActionAPIContext \<Rightarrow> Env \<Rightarrow> request \<Rightarrow> db \<Rightarrow> (error + response) \<times> db" where
  "server context env (CreateProfile input) s =
     returns (\<lambda>p. ProfileResult (Some p)) (createProfile context env input s)"
| "server context env (UpdateProfile input) s =
     returns ProfileResult (updateProfile context env input s)"
| "server context env ListProfiles s =
     returns ProfilesResult (listProfiles context s)"
| "server context env (DeleteProfile input) s =
     returns (\<lambda>p. ProfileResult (Some p)) (deleteProfile context input s)"
| "server context env (CreateDesign input) s =
     returns (\<lambda>d. DesignResult (Some d)) (createDesign context env input s)"
| "server context env (UpdateDesign input) s =
     returns DesignResult (updateDesign context env input s)"
| "server context env (ListDesigns input) s =
     returns DesignsResult (listDesigns context input s)"

datatype entity = Profile | Design

datatype operation = Create | Update | List | Delete

fun entityOf :: "request \<Rightarrow> entity" where
  "entityOf (CreateProfile _) = Profile"
| "entityOf (UpdateProfile _) = Profile"
| "entityOf ListProfiles = Profile"
| "entityOf (DeleteProfile _) = Profile"
| "entityOf (CreateDesign _) = Design"
| "entityOf (UpdateDesign _) = Design"
| "entityOf (ListDesigns _) = Design"

fun groupOf :: "request \<Rightarrow> operation" where
  "groupOf (CreateProfile _) = Create"
| "groupOf (UpdateProfile _) = Update"
| "groupOf ListProfiles = List"
| "groupOf (DeleteProfile _) = Delete"
| "groupOf (CreateDesign _) = Create"
| "groupOf (UpdateDesign _) = Update"
| "groupOf (ListDesigns _) = List"

text \<open>The primary keys of a store hold: no two rows of a table share their \<^verbatim>\<open>id\<close>.\<close>

definition primaryKeys :: "db \<Rightarrow> bool" where
  "primaryKeys s = (distinct (map p_id (CardProfiles s)) \<and> distinct (map d_id (CardDesigns s)))"

section \<open>Notions used in the statements\<close>

text \<open>The caller \<open>u\<close> owns a profile, or a design, with the given \<^verbatim>\<open>id\<close>.\<close>

definition ownsProfile :: "User \<Rightarrow> string \<Rightarrow> db \<Rightarrow> bool" where
  "ownsProfile u i s = list_ex (\<lambda>p. p_id p = i \<and> p_userId p = user_id u) (CardProfiles s)"

definition ownsDesign :: "User \<Rightarrow> string \<Rightarrow> db \<Rightarrow> bool" where
  "ownsDesign u i s = list_ex (\<lambda>d. d_id d = i \<and> d_userId d = user_id u) (CardDesigns s)"

text \<open>Some design refers to a profile with the given \<^verbatim>\<open>id\<close>.\<close>

definition referencedProfile :: "string \<Rightarrow> db \<Rightarrow> bool" where
  "referencedProfile i s = list_ex (\<lambda>d. profileId d = i) (CardDesigns s)"

text \<open>The rows of the two tables that belong to other users than \<open>u\<close>.\<close>

definition othersProfiles :: "User \<Rightarrow> db \<Rightarrow> CardProfile list" where
  "othersProfiles u s = filter (\<lambda>p. p_userId p \<noteq> user_id u) (CardProfiles s)"

definition othersDesigns :: "User \<Rightarrow> db \<Rightarrow> CardDesign list" where
  "othersDesigns u s = filter (\<lambda>d. d_userId d \<noteq> user_id u) (CardDesigns s)"

text \<open>What one entry of \<^verbatim>\<open>rest\<close> does to a row once the undefined ones are dropped.\<close>

definition entryProfile :: "profileKey \<times> val option \<Rightarrow> CardProfile \<Rightarrow> CardProfile" where
  "entryProfile e p = (case snd e of None \<Rightarrow> p | Some v \<Rightarrow> assignProfile (fst e, v) p)"

definition entryDesign :: "designKey \<times> val option \<Rightarrow> CardDesign \<Rightarrow> CardDesign" where
  "entryDesign e d = (case snd e of None \<Rightarrow> d | Some v \<Rightarrow> assignDesign (fst e, v) d)"

text \<open>The value of a column after an update whose input holds \<open>v\<close> for its key: the
  value provided, or the stored one when the key is omitted or undefined. The second
  form is for a column that may be NULL.\<close>

definition provided :: "'a option \<Rightarrow> 'a \<Rightarrow> 'a" where
  "provided v stored = (case v of None \<Rightarrow> stored | Some x \<Rightarrow> x)"

definition providedText :: "'a option \<Rightarrow> 'a option \<Rightarrow> 'a option" where
  "providedText v stored = (case v of None \<Rightarrow> stored | Some x \<Rightarrow> Some x)"

text \<open>An update that provides no optional key.\<close>

definition noProfileFields :: "UpdateProfileInput \<Rightarrow> bool" where
  "noProfileFields i =
     (up_profileName i = None \<and> up_fullName i = None \<and> up_jobTitle i = None \<and>
      up_companyName i = None \<and> up_email i = None \<and> up_phone i = None \<and>
      up_secondaryPhone i = None \<and> up_website i = None \<and> up_addressLine1 i = None \<and>
      up_addressLine2 i = None \<and> up_city i = None \<and> up_state i = None \<and>
      up_country i = None \<and> up_postalCode i = None \<and> up_notes i = None \<and>
      up_isDefault i = None)"

definition noDesignFields :: "UpdateDesignInput \<Rightarrow> bool" where
  "noDesignFields i =
     (ud_designName i = None \<and> ud_templateKey i = None \<and> ud_colorPalette i = None \<and>
      ud_fontConfig i = None \<and> ud_layoutConfig i = None \<and> ud_logoUrl i = None \<and>
      ud_isFavorite i = None \<and> ud_isPrimaryDesign i = None)"

text \<open>The row an update is to leave, by the words of the specification: the stored row
  with the provided fields overwritten and every other field kept.\<close>

definition mergeProfile :: "UpdateProfileInput \<Rightarrow> CardProfile \<Rightarrow> CardProfile" where
  "mergeProfile i p =
     p\<lparr> profileName := provided (up_profileName i) (profileName p),
        fullName := provided (up_fullName i) (fullName p),
        jobTitle := providedText (up_jobTitle i) (jobTitle p),
        companyName := providedText (up_companyName i) (companyName p),
        email := providedText (up_email i) (email p),
        phone := providedText (up_phone i) (phone p),
        secondaryPhone := providedText (up_secondaryPhone i) (secondaryPhone p),
        website := providedText (up_website i) (website p),
        addressLine1 := providedText (up_addressLine1 i) (addressLine1 p),
        addressLine2 := providedText (up_addressLine2 i) (addressLine2 p),
        city := providedText (up_city i) (city p),
        state := providedText (up_state i) (state p),
        country := providedText (up_country i) (country p),
        postalCode := providedText (up_postalCode i) (postalCode p),
        p_notes := providedText (up_notes i) (p_notes p),
        isDefault := provided (up_isDefault i) (isDefault p) \<rparr>"

definition mergeDesign :: "UpdateDesignInput \<Rightarrow> CardDesign \<Rightarrow> CardDesign" where
  "mergeDesign i d =
     d\<lparr> designName := providedText (ud_designName i) (designName d),
        templateKey := providedText (ud_templateKey i) (templateKey d),
        colorPalette := providedText (ud_colorPalette i) (colorPalette d),
        fontConfig := providedText (ud_fontConfig i) (fontConfig d),
        layoutConfig := providedText (ud_layoutConfig i) (layoutConfig d),
        logoUrl := providedText (ud_logoUrl i) (logoUrl d),
        isFavorite := provided (ud_isFavorite i) (isFavorite d),
        isPrimaryDesign := provided (ud_isPrimaryDesign i) (isPrimaryDesign d) \<rparr>"

section \<open>A small store and its requests\<close>

definition alice :: ActionAPIContext where
  "alice = \<lparr>locals = Some \<lparr>user = Some \<lparr>user_id = ''alice''\<rparr>\<rparr>\<rparr>"

definition bob :: ActionAPIContext where
  "bob = \<lparr>locals = Some \<lparr>user = Some \<lparr>user_id = ''bob''\<rparr>\<rparr>\<rparr>"

definition anonymous :: ActionAPIContext where
  "anonymous = \<lparr>locals = Some \<lparr>user = None\<rparr>\<rparr>"

definition clock :: Env where
  "clock = \<lparr>uuid = ''generated'', date = (\<lambda>k. 100 + int k)\<rparr>"

definition emptyStore :: db where
  "emptyStore = \<lparr>CardProfiles = [], CardDesigns = [], foreignKeys = False\<rparr>"

definition profileRow :: "string \<Rightarrow> string \<Rightarrow> bool \<Rightarrow> Date \<Rightarrow> Date \<Rightarrow> CardProfile" where
  "profileRow i owner d created updated =
     \<lparr> p_id = i, p_userId = owner, profileName = ''Card'', fullName = ''A. Person'',
       jobTitle = None, companyName = None, email = None, phone = None,
       secondaryPhone = None, website = None, addressLine1 = None, addressLine2 = None,
       city = None, state = None, country = None, postalCode = None, p_notes = None,
       isDefault = d, p_createdAt = created, p_updatedAt = updated \<rparr>"

definition designRow ::
  "string \<Rightarrow> string \<Rightarrow> string \<Rightarrow> bool \<Rightarrow> Date \<Rightarrow> Date \<Rightarrow> CardDesign" where
  "designRow i pid owner d created updated =
     \<lparr> d_id = i, profileId = pid, d_userId = owner, designName = None, templateKey = None,
       colorPalette = None, fontConfig = None, layoutConfig = None, logoUrl = None,
       isFavorite = False, isPrimaryDesign = d, d_createdAt = created, d_updatedAt = updated \<rparr>"

definition profileInput :: "string \<Rightarrow> bool option \<Rightarrow> CreateProfileInput" where
  "profileInput i d =
     \<lparr> cp_id = Some i, cp_profileName = ''Card'', cp_fullName = ''A. Person'',
       cp_jobTitle = None, cp_companyName = None, cp_email = None, cp_phone = None,
       cp_secondaryPhone = None, cp_website = None, cp_addressLine1 = None,
       cp_addressLine2 = None, cp_city = None, cp_state = None, cp_country = None,
       cp_postalCode = None, cp_notes = None, cp_isDefault = d \<rparr>"

definition profileChange :: "string \<Rightarrow> string option \<Rightarrow> bool option \<Rightarrow> UpdateProfileInput" where
  "profileChange i c d =
     \<lparr> up_id = i, up_profileName = None, up_fullName = None, up_jobTitle = None,
       up_companyName = None, up_email = None, up_phone = None, up_secondaryPhone = None,
       up_website = None, up_addressLine1 = None, up_addressLine2 = None, up_city = c,
       up_state = None, up_country = None, up_postalCode = None, up_notes = None,
       up_isDefault = d \<rparr>"

definition designInput :: "string \<Rightarrow> string \<Rightarrow> bool option \<Rightarrow> CreateDesignInput" where
  "designInput i pid d =
     \<lparr> cd_id = Some i, cd_profileId = pid, cd_designName = None, cd_templateKey = None,
       cd_colorPalette = None, cd_fontConfig = None, cd_layoutConfig = None,
       cd_logoUrl = None, cd_isFavorite = None, cd_isPrimaryDesign = d \<rparr>"

definition designChange :: "string \<Rightarrow> string \<Rightarrow> string option \<Rightarrow> bool option \<Rightarrow> UpdateDesignInput" where
  "designChange i pid n d =
     \<lparr> ud_id = i, ud_profileId = pid, ud_designName = n, ud_templateKey = None,
       ud_colorPalette = None, ud_fontConfig = None, ud_layoutConfig = None,
       ud_logoUrl = None, ud_isFavorite = None, ud_isPrimaryDesign = d \<rparr>"

definition smallStore :: db where
  "smallStore =
     \<lparr> CardProfiles = [profileRow ''A'' ''alice'' True 1 1, profileRow ''B'' ''bob'' True 1 1],
       CardDesigns = [designRow ''D1'' ''A'' ''alice'' True 2 2,
                      designRow ''D2'' ''B'' ''bob'' True 2 2],
       foreignKeys = False \<rparr>"

text \<open>A store in which a profile has the empty string as its \<^verbatim>\<open>id\<close>, which the schema
  of \<^verbatim>\<open>createProfile\<close> accepts.\<close>

definition blankStore :: db where
  "blankStore =
     \<lparr> CardProfiles = [profileRow '''' ''alice'' False 1 1, profileRow ''A'' ''alice'' True 1 1],
       CardDesigns = [designRow ''D1'' ''A'' ''alice'' True 2 2],
       foreignKeys = False \<rparr>"

text \<open>A store that enforces the reference of \<^verbatim>\<open>profileId\<close>, with a profile that no
  design refers to.\<close>

definition strictStore :: db where
  "strictStore =
     \<lparr> CardProfiles = [profileRow ''A'' ''alice'' True 1 1, profileRow ''B'' ''bob'' True 1 1,
                       profileRow ''C'' ''alice'' False 1 1],
       CardDesigns = [designRow ''D1'' ''A'' ''alice'' True 2 2,
                      designRow ''D2'' ''B'' ''bob'' True 2 2],
       foreignKeys = True \<rparr>"

section \<open>Facts about the statements of the store\<close>

lemma requireUser_Some: "contextUser context = Some u \<Longrightarrow> requireUser context = Inr u"
  by (simp add: requireUser_def)

lemma requireUser_None: "contextUser context = None \<Longrightarrow> requireUser context = Inl UNAUTHORIZED"
  by (simp add: requireUser_def)

lemma first_filter_None: "first (filter c xs) = None \<longleftrightarrow> (\<forall>x\<in>set xs. \<not> c x)"
  by (induction xs) (auto simp: first_def)

lemma first_filter_Some: "first (filter c xs) = Some x \<Longrightarrow> x \<in> set xs \<and> c x"
  by (induction xs) (auto simp: first_def split: if_splits)

text \<open>With distinct keys, a filter that only the image of one row passes returns that
  image alone.\<close>

lemma filter_map_single:
  "distinct (map key xs) \<Longrightarrow> x \<in> set xs \<Longrightarrow> P (h x) \<Longrightarrow>
   (\<And>y. y \<in> set xs \<Longrightarrow> key y \<noteq> key x \<Longrightarrow> \<not> P (h y)) \<Longrightarrow>
   filter P (map h xs) = [h x]"
proof (induction xs)
  case Nil
  then show ?case by simp
next
  case (Cons a xs)
  show ?case
  proof (cases "a = x")
    case True
    have "\<forall>y\<in>set xs. key y \<noteq> key x"
      using Cons.prems(1) True by (metis distinct.simps(2) image_eqI list.simps(9) set_map)
    then have "\<forall>y\<in>set xs. \<not> P (h y)"
      using Cons.prems(4) by auto
    then have "filter P (map h xs) = []"
      by (simp add: filter_empty_conv)
    then show ?thesis using True Cons.prems(3) by simp
  next
    case False
    then have xin: "x \<in> set xs" using Cons.prems(2) by simp
    then have "key a \<noteq> key x" using Cons.prems(1) by force
    then have "\<not> P (h a)" using Cons.prems(4) by simp
    moreover have "filter P (map h xs) = [h x]"
      using Cons.IH Cons.prems xin by auto
    ultimately show ?thesis by simp
  qed
qed

lemma first_simps [simp]: "first [] = None" "first (x # xs) = Some x"
  by (simp_all add: first_def)

lemma filter_single:
  "distinct (map key xs) \<Longrightarrow> x \<in> set xs \<Longrightarrow> P x \<Longrightarrow>
   (\<And>y. y \<in> set xs \<Longrightarrow> key y \<noteq> key x \<Longrightarrow> \<not> P y) \<Longrightarrow> filter P xs = [x]"
  using filter_map_single [where h = "\<lambda>x. x" and key = key and P = P and x = x and xs = xs]
  by simp

lemma ownsProfile_first:
  "ownsProfile u i s \<Longrightarrow>
   \<exists>p. first (selectProfiles (\<lambda>p. p_id p = i \<and> p_userId p = user_id u) s) = Some p"
  using first_filter_None [of "\<lambda>p. p_id p = i \<and> p_userId p = user_id u" "CardProfiles s"]
  by (cases "first (selectProfiles (\<lambda>p. p_id p = i \<and> p_userId p = user_id u) s)")
    (auto simp: ownsProfile_def selectProfiles_def list_ex_iff)

lemma not_ownsProfile_first:
  "\<not> ownsProfile u i s \<Longrightarrow>
   first (selectProfiles (\<lambda>p. p_id p = i \<and> p_userId p = user_id u) s) = None"
  by (simp add: first_filter_None ownsProfile_def selectProfiles_def list_ex_iff)

lemma not_ownsDesign_first:
  "\<not> ownsDesign u i s \<Longrightarrow>
   first (selectDesigns (\<lambda>d. d_id d = i \<and> d_userId d = user_id u) s) = None"
  by (simp add: first_filter_None ownsDesign_def selectDesigns_def list_ex_iff)

lemma owned_profile_first:
  assumes "distinct (map p_id (CardProfiles s))" "p \<in> set (CardProfiles s)"
    "p_id p = i" "p_userId p = user_id u"
  shows "first (selectProfiles (\<lambda>p. p_id p = i \<and> p_userId p = user_id u) s) = Some p"
proof -
  have "filter (\<lambda>p. p_id p = i \<and> p_userId p = user_id u) (CardProfiles s) = [p]"
    by (rule filter_single [where key = p_id]) (use assms in auto)
  then show ?thesis by (simp add: selectProfiles_def first_def)
qed

lemma owned_design_first:
  assumes "distinct (map d_id (CardDesigns s))" "d \<in> set (CardDesigns s)"
    "d_id d = i" "d_userId d = user_id u"
  shows "first (selectDesigns (\<lambda>d. d_id d = i \<and> d_userId d = user_id u) s) = Some d"
proof -
  have "filter (\<lambda>d. d_id d = i \<and> d_userId d = user_id u) (CardDesigns s) = [d]"
    by (rule filter_single [where key = d_id]) (use assms in auto)
  then show ?thesis by (simp add: selectDesigns_def first_def)
qed

lemma defined_Some: "(k, Some v) \<in> set es \<Longrightarrow> defined es \<noteq> []"
  by (induction es rule: defined.induct) auto

lemma defined_Nil: "defined es = [] \<longleftrightarrow> (\<forall>e\<in>set es. snd e = None)"
  by (induction es rule: defined.induct) auto

subsection \<open>The merge of \<^verbatim>\<open>updateData\<close> into a profile\<close>

lemma fold_defined_profile:
  "fold assignProfile (defined es) p = fold entryProfile es p"
  by (induction es arbitrary: p rule: defined.induct) (simp_all add: entryProfile_def)

lemma entryProfile_key:
  "entryProfile (K_profileName, map_option Text v) q = q\<lparr>profileName := (case v of None \<Rightarrow> profileName q | Some x \<Rightarrow> x)\<rparr>"
  "entryProfile (K_fullName, map_option Text v) q = q\<lparr>fullName := (case v of None \<Rightarrow> fullName q | Some x \<Rightarrow> x)\<rparr>"
  "entryProfile (K_jobTitle, map_option Text v) q = q\<lparr>jobTitle := (case v of None \<Rightarrow> jobTitle q | Some x \<Rightarrow> Some x)\<rparr>"
  "entryProfile (K_companyName, map_option Text v) q = q\<lparr>companyName := (case v of None \<Rightarrow> companyName q | Some x \<Rightarrow> Some x)\<rparr>"
  "entryProfile (K_email, map_option Text v) q = q\<lparr>email := (case v of None \<Rightarrow> email q | Some x \<Rightarrow> Some x)\<rparr>"
  "entryProfile (K_phone, map_option Text v) q = q\<lparr>phone := (case v of None \<Rightarrow> phone q | Some x \<Rightarrow> Some x)\<rparr>"
  "entryProfile (K_secondaryPhone, map_option Text v) q = q\<lparr>secondaryPhone := (case v of None \<Rightarrow> secondaryPhone q | Some x \<Rightarrow> Some x)\<rparr>"
  "entryProfile (K_website, map_option Text v) q = q\<lparr>website := (case v of None \<Rightarrow> website q | Some x \<Rightarrow> Some x)\<rparr>"
  "entryProfile (K_addressLine1, map_option Text v) q = q\<lparr>addressLine1 := (case v of None \<Rightarrow> addressLine1 q | Some x \<Rightarrow> Some x)\<rparr>"
  "entryProfile (K_addressLine2, map_option Text v) q = q\<lparr>addressLine2 := (case v of None \<Rightarrow> addressLine2 q | Some x \<Rightarrow> Some x)\<rparr>"
  "entryProfile (K_city, map_option Text v) q = q\<lparr>city := (case v of None \<Rightarrow> city q | Some x \<Rightarrow> Some x)\<rparr>"
  "entryProfile (K_state, map_option Text v) q = q\<lparr>state := (case v of None \<Rightarrow> state q | Some x \<Rightarrow> Some x)\<rparr>"
  "entryProfile (K_country, map_option Text v) q = q\<lparr>country := (case v of None \<Rightarrow> country q | Some x \<Rightarrow> Some x)\<rparr>"
  "entryProfile (K_postalCode, map_option Text v) q = q\<lparr>postalCode := (case v of None \<Rightarrow> postalCode q | Some x \<Rightarrow> Some x)\<rparr>"
  "entryProfile (K_notes, map_option Text v) q = q\<lparr>p_notes := (case v of None \<Rightarrow> p_notes q | Some x \<Rightarrow> Some x)\<rparr>"
  "entryProfile (K_isDefault, map_option Bool b) q = q\<lparr>isDefault := (case b of None \<Rightarrow> isDefault q | Some x \<Rightarrow> x)\<rparr>"
  by (cases v; cases b; simp add: entryProfile_def)+

lemma setProfile_entries:
  "setProfile (defined (profileEntries i)) t p =
     p\<lparr> profileName := (case up_profileName i of None \<Rightarrow> profileName p | Some v \<Rightarrow> v),
        fullName := (case up_fullName i of None \<Rightarrow> fullName p | Some v \<Rightarrow> v),
        jobTitle := (case up_jobTitle i of None \<Rightarrow> jobTitle p | Some v \<Rightarrow> Some v),
        companyName := (case up_companyName i of None \<Rightarrow> companyName p | Some v \<Rightarrow> Some v),
        email := (case up_email i of None \<Rightarrow> email p | Some v \<Rightarrow> Some v),
        phone := (case up_phone i of None \<Rightarrow> phone p | Some v \<Rightarrow> Some v),
        secondaryPhone := (case up_secondaryPhone i of None \<Rightarrow> secondaryPhone p | Some v \<Rightarrow> Some v),
        website := (case up_website i of None \<Rightarrow> website p | Some v \<Rightarrow> Some v),
        addressLine1 := (case up_addressLine1 i of None \<Rightarrow> addressLine1 p | Some v \<Rightarrow> Some v),
        addressLine2 := (case up_addressLine2 i of None \<Rightarrow> addressLine2 p | Some v \<Rightarrow> Some v),
        city := (case up_city i of None \<Rightarrow> city p | Some v \<Rightarrow> Some v),
        state := (case up_state i of None \<Rightarrow> state p | Some v \<Rightarrow> Some v),
        country := (case up_country i of None \<Rightarrow> country p | Some v \<Rightarrow> Some v),
        postalCode := (case up_postalCode i of None \<Rightarrow> postalCode p | Some v \<Rightarrow> Some v),
        p_notes := (case up_notes i of None \<Rightarrow> p_notes p | Some v \<Rightarrow> Some v),
        isDefault := (case up_isDefault i of None \<Rightarrow> isDefault p | Some v \<Rightarrow> v),
        p_updatedAt := t \<rparr>"
  unfolding setProfile_def fold_defined_profile profileEntries_def
  by (simp add: entryProfile_key cong: option.case_cong)

subsection \<open>The merge of \<^verbatim>\<open>updateData\<close> into a design\<close>

lemma fold_defined_design:
  "fold assignDesign (defined es) d = fold entryDesign es d"
  by (induction es arbitrary: d rule: defined.induct) (simp_all add: entryDesign_def)

lemma entryDesign_key:
  "entryDesign (K_designName, map_option Text v) q = q\<lparr>designName := (case v of None \<Rightarrow> designName q | Some x \<Rightarrow> Some x)\<rparr>"
  "entryDesign (K_templateKey, map_option Text v) q = q\<lparr>templateKey := (case v of None \<Rightarrow> templateKey q | Some x \<Rightarrow> Some x)\<rparr>"
  "entryDesign (K_colorPalette, map_option Text v) q = q\<lparr>colorPalette := (case v of None \<Rightarrow> colorPalette q | Some x \<Rightarrow> Some x)\<rparr>"
  "entryDesign (K_fontConfig, map_option Text v) q = q\<lparr>fontConfig := (case v of None \<Rightarrow> fontConfig q | Some x \<Rightarrow> Some x)\<rparr>"
  "entryDesign (K_layoutConfig, map_option Text v) q = q\<lparr>layoutConfig := (case v of None \<Rightarrow> layoutConfig q | Some x \<Rightarrow> Some x)\<rparr>"
  "entryDesign (K_logoUrl, map_option Text v) q = q\<lparr>logoUrl := (case v of None \<Rightarrow> logoUrl q | Some x \<Rightarrow> Some x)\<rparr>"
  "entryDesign (K_isFavorite, map_option Bool b) q = q\<lparr>isFavorite := (case b of None \<Rightarrow> isFavorite q | Some x \<Rightarrow> x)\<rparr>"
  "entryDesign (K_isPrimaryDesign, map_option Bool b) q = q\<lparr>isPrimaryDesign := (case b of None \<Rightarrow> isPrimaryDesign q | Some x \<Rightarrow> x)\<rparr>"
  by (cases v; cases b; simp add: entryDesign_def)+

lemma setDesign_entries:
  "setDesign (defined (designEntries i)) t d =
     d\<lparr> designName := (case ud_designName i of None \<Rightarrow> designName d | Some v \<Rightarrow> Some v),
        templateKey := (case ud_templateKey i of None \<Rightarrow> templateKey d | Some v \<Rightarrow> Some v),
        colorPalette := (case ud_colorPalette i of None \<Rightarrow> colorPalette d | Some v \<Rightarrow> Some v),
        fontConfig := (case ud_fontConfig i of None \<Rightarrow> fontConfig d | Some v \<Rightarrow> Some v),
        layoutConfig := (case ud_layoutConfig i of None \<Rightarrow> layoutConfig d | Some v \<Rightarrow> Some v),
        logoUrl := (case ud_logoUrl i of None \<Rightarrow> logoUrl d | Some v \<Rightarrow> Some v),
        isFavorite := (case ud_isFavorite i of None \<Rightarrow> isFavorite d | Some v \<Rightarrow> v),
        isPrimaryDesign := (case ud_isPrimaryDesign i of None \<Rightarrow> isPrimaryDesign d | Some v \<Rightarrow> v),
        d_updatedAt := t \<rparr>"
  unfolding setDesign_def fold_defined_design designEntries_def
  by (simp add: entryDesign_key cong: option.case_cong)

text \<open>\<^verbatim>\<open>updateData\<close> has no key exactly when the input provides none.\<close>

lemma profileEntries_empty: "defined (profileEntries i) = [] \<longleftrightarrow> noProfileFields i"
  by (simp add: defined_Nil profileEntries_def noProfileFields_def)

lemma designEntries_empty: "defined (designEntries i) = [] \<longleftrightarrow> noDesignFields i"
  by (simp add: defined_Nil designEntries_def noDesignFields_def)

subsection \<open>No action of an authenticated caller is refused as unauthorized\<close>

lemma insertProfile_error: "fst (insertProfile row s) \<noteq> Inl UNAUTHORIZED"
  by (simp add: insertProfile_def)

lemma insertDesign_error: "fst (insertDesign row s) \<noteq> Inl UNAUTHORIZED"
  by (simp add: insertDesign_def)

lemma createProfile_authorized:
  "contextUser context = Some u \<Longrightarrow> fst (createProfile context env input s) \<noteq> Inl UNAUTHORIZED"
  by (simp add: createProfile_def requireUser_Some Let_def insertProfile_error)

lemma updateProfile_authorized:
  "contextUser context = Some u \<Longrightarrow> fst (updateProfile context env input s) \<noteq> Inl UNAUTHORIZED"
  by (simp add: updateProfile_def requireUser_Some Let_def split: option.splits)

lemma listProfiles_authorized:
  "contextUser context = Some u \<Longrightarrow> fst (listProfiles context s) \<noteq> Inl UNAUTHORIZED"
  by (simp add: listProfiles_def requireUser_Some)

lemma deleteProfile_authorized:
  "contextUser context = Some u \<Longrightarrow> fst (deleteProfile context input s) \<noteq> Inl UNAUTHORIZED"
  by (simp add: deleteProfile_def requireUser_Some deleteProfiles_def Let_def split: option.splits)

lemma createDesign_authorized:
  "contextUser context = Some u \<Longrightarrow> fst (createDesign context env input s) \<noteq> Inl UNAUTHORIZED"
  by (simp add: createDesign_def requireUser_Some Let_def insertDesign_error split: option.splits)

lemma updateDesign_authorized:
  "contextUser context = Some u \<Longrightarrow> fst (updateDesign context env input s) \<noteq> Inl UNAUTHORIZED"
  by (simp add: updateDesign_def requireUser_Some Let_def split: option.splits)

lemma listDesigns_authorized:
  "contextUser context = Some u \<Longrightarrow> fst (listDesigns context input s) \<noteq> Inl UNAUTHORIZED"
  by (simp add: listDesigns_def requireUser_Some Let_def)

lemma returns_error: "fst (returns wrap r) = Inl e \<longleftrightarrow> fst r = Inl e"
  by (cases "fst r") (simp_all add: returns_def)

lemma server_unauthorized:
  "contextUser context = None \<Longrightarrow> server context env req s = (Inl UNAUTHORIZED, s)"
  by (cases req)
    (simp_all add: returns_def requireUser_None createProfile_def updateProfile_def
      listProfiles_def deleteProfile_def createDesign_def updateDesign_def listDesigns_def)

lemma server_authorized:
  "contextUser context = Some u \<Longrightarrow> fst (server context env req s) \<noteq> Inl UNAUTHORIZED"
  by (cases req)
    (simp_all add: returns_error createProfile_authorized updateProfile_authorized
      listProfiles_authorized deleteProfile_authorized createDesign_authorized
      updateDesign_authorized listDesigns_authorized)

subsection \<open>Unfolding the actions on a given store\<close>

lemmas action_defs =
  createProfile_def updateProfile_def listProfiles_def deleteProfile_def createDesign_def
  updateDesign_def listDesigns_def requireUser_def contextUser_def truthy_def
  truthyText_def orFalse_def first_def selectProfiles_def selectDesigns_def
  updateProfiles_def updatedProfiles_def updateDesigns_def updatedDesigns_def
  insertProfile_def insertDesign_def deleteProfiles_def clearDefault_def clearPrimary_def
  setProfile_def setDesign_def profileEntries_def designEntries_def inputProfileId_def
  returns_def Let_def

lemmas example_defs =
  alice_def bob_def anonymous_def clock_def emptyStore_def profileRow_def designRow_def
  profileInput_def profileChange_def designInput_def designChange_def

subsection \<open>Columns that the flag statements and the merge keep\<close>

lemma clearDefault_simps:
  "p_id (clearDefault t p) = p_id p"
  "p_userId (clearDefault t p) = p_userId p"
  "isDefault (clearDefault t p) = False"
  by (simp_all add: clearDefault_def)

lemma setProfile_keeps:
  "p_id (setProfile (defined (profileEntries i)) t p) = p_id p"
  "p_userId (setProfile (defined (profileEntries i)) t p) = p_userId p"
  "p_createdAt (setProfile (defined (profileEntries i)) t p) = p_createdAt p"
  "p_updatedAt (setProfile (defined (profileEntries i)) t p) = t"
  "isDefault (setProfile (defined (profileEntries i)) t p) =
     (case up_isDefault i of None \<Rightarrow> isDefault p | Some v \<Rightarrow> v)"
  by (simp_all add: setProfile_entries)

lemma clearPrimary_simps:
  "d_id (clearPrimary t d) = d_id d"
  "d_userId (clearPrimary t d) = d_userId d"
  "profileId (clearPrimary t d) = profileId d"
  "isPrimaryDesign (clearPrimary t d) = False"
  by (simp_all add: clearPrimary_def)

lemma setDesign_keeps:
  "d_id (setDesign (defined (designEntries i)) t d) = d_id d"
  "d_userId (setDesign (defined (designEntries i)) t d) = d_userId d"
  "profileId (setDesign (defined (designEntries i)) t d) = profileId d"
  "d_createdAt (setDesign (defined (designEntries i)) t d) = d_createdAt d"
  "d_updatedAt (setDesign (defined (designEntries i)) t d) = t"
  "isPrimaryDesign (setDesign (defined (designEntries i)) t d) =
     (case ud_isPrimaryDesign i of None \<Rightarrow> isPrimaryDesign d | Some v \<Rightarrow> v)"
  by (simp_all add: setDesign_entries)

subsection \<open>The merge against the row of the specification\<close>

lemma setProfile_merge:
  "setProfile (defined (profileEntries i)) t p = (mergeProfile i p)\<lparr>p_updatedAt := t\<rparr>"
  by (simp add: setProfile_entries mergeProfile_def provided_def providedText_def)

lemma mergeProfile_none: "noProfileFields i \<Longrightarrow> mergeProfile i p = p"
  by (simp add: mergeProfile_def noProfileFields_def provided_def providedText_def)

lemma mergeProfile_clear:
  "up_isDefault i = Some True \<Longrightarrow>
   (mergeProfile i (clearDefault t p))\<lparr>p_updatedAt := t'\<rparr> = (mergeProfile i p)\<lparr>p_updatedAt := t'\<rparr>"
  by (simp add: mergeProfile_def clearDefault_def provided_def)

lemma setDesign_merge:
  "setDesign (defined (designEntries i)) t d = (mergeDesign i d)\<lparr>d_updatedAt := t\<rparr>"
  by (simp add: setDesign_entries mergeDesign_def provided_def providedText_def)

lemma mergeDesign_none: "noDesignFields i \<Longrightarrow> mergeDesign i d = d"
  by (simp add: mergeDesign_def noDesignFields_def provided_def providedText_def)

lemma mergeDesign_clear:
  "ud_isPrimaryDesign i = Some True \<Longrightarrow>
   (mergeDesign i (clearPrimary t d))\<lparr>d_updatedAt := t'\<rparr> = (mergeDesign i d)\<lparr>d_updatedAt := t'\<rparr>"
  by (simp add: mergeDesign_def clearPrimary_def provided_def)

subsection \<open>The small store\<close>

lemma smallStore_facts:
  "contextUser alice = Some \<lparr>user_id = ''alice''\<rparr>"
  "primaryKeys smallStore"
  "profileRow ''A'' ''alice'' True 1 1 \<in> set (CardProfiles smallStore)"
  "designRow ''D1'' ''A'' ''alice'' True 2 2 \<in> set (CardDesigns smallStore)"
  "ownsProfile \<lparr>user_id = ''alice''\<rparr> ''A'' smallStore"
  by (simp_all add: contextUser_def alice_def primaryKeys_def smallStore_def profileRow_def
      designRow_def ownsProfile_def)

section \<open>The guard of every action\<close>

text \<open>
  Claim C8. Each of the seven actions fails with \<open>UNAUTHORIZED\<close> when the context
  carries no user, and then the store is the one it was given: the guard runs before
  any statement. When the context carries a user, no action fails with
  \<open>UNAUTHORIZED\<close>.
\<close>

theorem requireUser_gate:
  "(contextUser context = None \<longrightarrow> server context env req s = (Inl UNAUTHORIZED, s)) \<and>
   (contextUser context \<noteq> None \<longrightarrow> fst (server context env req s) \<noteq> Inl UNAUTHORIZED)"
proof (intro conjI impI)
  assume "contextUser context = None"
  then show "server context env req s = (Inl UNAUTHORIZED, s)"
    by (rule server_unauthorized)
next
  assume "contextUser context \<noteq> None"
  then obtain u where "contextUser context = Some u"
    by blast
  then show "fst (server context env req s) \<noteq> Inl UNAUTHORIZED"
    by (rule server_authorized)
qed

theorem requireUser_gate_witness:
  "contextUser anonymous = None \<and>
   server anonymous clock (DeleteProfile \<lparr>dp_id = ''A''\<rparr>)
     (emptyStore\<lparr>CardProfiles := [profileRow ''A'' ''alice'' True 1 1]\<rparr>)
   = (Inl UNAUTHORIZED, emptyStore\<lparr>CardProfiles := [profileRow ''A'' ''alice'' True 1 1]\<rparr>) \<and>
   contextUser alice \<noteq> None \<and>
   fst (server alice clock (DeleteProfile \<lparr>dp_id = ''A''\<rparr>)
     (emptyStore\<lparr>CardProfiles := [profileRow ''A'' ''alice'' True 1 1]\<rparr>)) \<noteq> Inl UNAUTHORIZED"
proof -
  have a: "contextUser anonymous = None"
    by (simp add: contextUser_def anonymous_def)
  have b: "contextUser alice \<noteq> None"
    by (simp add: contextUser_def alice_def)
  show ?thesis
    using a b requireUser_gate [of anonymous clock "DeleteProfile \<lparr>dp_id = ''A''\<rparr>"
        "emptyStore\<lparr>CardProfiles := [profileRow ''A'' ''alice'' True 1 1]\<rparr>"]
      requireUser_gate [of alice clock "DeleteProfile \<lparr>dp_id = ''A''\<rparr>"
        "emptyStore\<lparr>CardProfiles := [profileRow ''A'' ''alice'' True 1 1]\<rparr>"]
    by blast
qed

section \<open>One default profile, one primary design\<close>

lemma createProfile_default:
  assumes u: "contextUser context = Some u"
    and d: "cp_isDefault ci = Some True"
    and r: "createProfile context env ci s = (Inr p, s')"
  shows "filter (\<lambda>q. p_userId q = user_id u \<and> isDefault q) (CardProfiles s') = [p]"
proof -
  let ?s1 = "updateProfiles (\<lambda>p. p_userId p = user_id u) (clearDefault (date env 0)) s"
  have cleared: "filter (\<lambda>q. p_userId q = user_id u \<and> isDefault q) (CardProfiles ?s1) = []"
    by (auto simp: updateProfiles_def filter_empty_conv clearDefault_simps)
  from r have ins: "insertProfile p ?s1 = (Inr p, s')" and pu: "p_userId p = user_id u"
    and pd: "isDefault p"
    using u d
    by (auto simp: createProfile_def requireUser_Some truthy_def orFalse_def Let_def
        insertProfile_def split: if_splits)
  from ins have "CardProfiles s' = CardProfiles ?s1 @ [p]"
    by (auto simp: insertProfile_def split: if_splits)
  with cleared pu pd show ?thesis by simp
qed

lemma updateProfile_default:
  assumes u: "contextUser context = Some u"
    and d: "up_isDefault ui = Some True"
    and k: "distinct (map p_id (CardProfiles s))"
    and r: "updateProfile context env ui s = (Inr r, s')"
  shows "\<exists>q. r = Some q \<and> p_id q = up_id ui \<and>
           filter (\<lambda>q. p_userId q = user_id u \<and> isDefault q) (CardProfiles s') = [q]"
proof -
  let ?c = "\<lambda>p. p_id p = up_id ui \<and> p_userId p = user_id u"
  let ?g = "\<lambda>p. if p_userId p = user_id u \<and> isDefault p = True
                 then clearDefault (date env 0) p else p"
  let ?f = "setProfile (defined (profileEntries ui)) (date env 1)"
  let ?h = "\<lambda>p. if ?c (?g p) then ?f (?g p) else ?g p"
  have ne: "defined (profileEntries ui) \<noteq> []"
    using d by (simp add: profileEntries_empty noProfileFields_def)
  obtain x where x: "first (selectProfiles ?c s) = Some x"
    using r u by (cases "first (selectProfiles ?c s)")
      (auto simp: updateProfile_def requireUser_Some)
  then have xin: "x \<in> set (CardProfiles s)" and cx: "?c x"
    using first_filter_Some [of ?c "CardProfiles s" x] by (simp_all add: selectProfiles_def)
  have res: "r = first (map ?f (filter ?c (map ?g (CardProfiles s))))"
    and st: "CardProfiles s' = map ?h (CardProfiles s)"
    using r u x d ne
    by (auto simp: updateProfile_def requireUser_Some truthy_def Let_def updateProfiles_def
        updatedProfiles_def)
  have cg: "?c (?g x)" using cx by (simp add: clearDefault_simps)
  have one: "filter ?c (map ?g (CardProfiles s)) = [?g x]"
    by (rule filter_map_single [where key = p_id and P = ?c and h = ?g, OF k xin cg])
      (use cx in \<open>auto simp: clearDefault_simps\<close>)
  have hx: "?h x = ?f (?g x)" using cg by simp
  let ?P = "\<lambda>q. p_userId q = user_id u \<and> isDefault q"
  have "filter ?P (map ?h (CardProfiles s)) = [?h x]"
  proof (rule filter_map_single [where key = p_id and P = ?P and h = ?h, OF k xin])
    show "p_userId (?h x) = user_id u \<and> isDefault (?h x)"
      unfolding hx using cx d by (simp add: setProfile_keeps clearDefault_simps)
  next
    fix y assume "y \<in> set (CardProfiles s)" and "p_id y \<noteq> p_id x"
    then show "\<not> (p_userId (?h y) = user_id u \<and> isDefault (?h y))"
      using cx by (auto simp: clearDefault_simps)
  qed
  moreover have "r = Some (?h x)" using res one hx by (simp add: first_def)
  moreover have "p_id (?h x) = up_id ui"
    unfolding hx using cx by (simp add: setProfile_keeps clearDefault_simps)
  ultimately show ?thesis using st by simp
qed

text \<open>
  Claim C1. When \<^verbatim>\<open>createProfile\<close> or \<^verbatim>\<open>updateProfile\<close> completes for a caller with
  \<^verbatim>\<open>isDefault\<close> true in its input, the profile it returns is the only row of that
  caller whose \<^verbatim>\<open>isDefault\<close> is true: the flag of the caller's other profiles has
  been cleared. For \<^verbatim>\<open>updateProfile\<close> the table is one whose primary key holds.
  Creating A and then B, both with \<^verbatim>\<open>isDefault\<close> true, leaves A with the flag false
  and B with the flag true.
\<close>

theorem single_default_profile:
  "contextUser context = Some u \<Longrightarrow>
   (cp_isDefault ci = Some True \<and> createProfile context env ci s = (Inr p, s') \<longrightarrow>
      filter (\<lambda>q. p_userId q = user_id u \<and> isDefault q) (CardProfiles s') = [p]) \<and>
   (up_isDefault ui = Some True \<and> distinct (map p_id (CardProfiles t)) \<and>
    updateProfile context env ui t = (Inr r, t') \<longrightarrow>
      (\<exists>q. r = Some q \<and> p_id q = up_id ui \<and>
           filter (\<lambda>q. p_userId q = user_id u \<and> isDefault q) (CardProfiles t') = [q]))"
proof (intro conjI impI)
  assume u: "contextUser context = Some u"
    and a: "cp_isDefault ci = Some True \<and> createProfile context env ci s = (Inr p, s')"
  from a have "cp_isDefault ci = Some True" "createProfile context env ci s = (Inr p, s')"
    by simp_all
  with u show "filter (\<lambda>q. p_userId q = user_id u \<and> isDefault q) (CardProfiles s') = [p]"
    by (rule createProfile_default)
next
  assume u: "contextUser context = Some u"
    and a: "up_isDefault ui = Some True \<and> distinct (map p_id (CardProfiles t)) \<and>
            updateProfile context env ui t = (Inr r, t')"
  from a have "up_isDefault ui = Some True" "distinct (map p_id (CardProfiles t))"
    "updateProfile context env ui t = (Inr r, t')"
    by simp_all
  with u show "\<exists>q. r = Some q \<and> p_id q = up_id ui \<and>
           filter (\<lambda>q. p_userId q = user_id u \<and> isDefault q) (CardProfiles t') = [q]"
    by (rule updateProfile_default)
qed

theorem single_default_profile_witness:
  "contextUser alice = Some \<lparr>user_id = ''alice''\<rparr> \<and>
   createProfile alice clock (profileInput ''B'' (Some True))
     (emptyStore\<lparr>CardProfiles := [profileRow ''A'' ''alice'' True 101 102]\<rparr>) =
    (Inr (profileRow ''B'' ''alice'' True 101 102),
     emptyStore\<lparr>CardProfiles := [profileRow ''A'' ''alice'' False 101 100,
                                profileRow ''B'' ''alice'' True 101 102]\<rparr>) \<and>
   filter (\<lambda>q. p_userId q = ''alice'' \<and> isDefault q)
     [profileRow ''A'' ''alice'' False 101 100, profileRow ''B'' ''alice'' True 101 102] =
    [profileRow ''B'' ''alice'' True 101 102] \<and>
   updateProfile alice clock (profileChange ''A'' None (Some True))
     (emptyStore\<lparr>CardProfiles := [profileRow ''A'' ''alice'' False 101 100,
                                profileRow ''B'' ''alice'' True 101 102]\<rparr>) =
    (Inr (Some (profileRow ''A'' ''alice'' True 101 101)),
     emptyStore\<lparr>CardProfiles := [profileRow ''A'' ''alice'' True 101 101,
                                profileRow ''B'' ''alice'' False 101 100]\<rparr>) \<and>
   filter (\<lambda>q. p_userId q = ''alice'' \<and> isDefault q)
     [profileRow ''A'' ''alice'' True 101 101, profileRow ''B'' ''alice'' False 101 100] =
    [profileRow ''A'' ''alice'' True 101 101]"
proof -
  let ?sA = "emptyStore\<lparr>CardProfiles := [profileRow ''A'' ''alice'' True 101 102]\<rparr>"
  let ?sAB = "emptyStore\<lparr>CardProfiles := [profileRow ''A'' ''alice'' False 101 100,
                                profileRow ''B'' ''alice'' True 101 102]\<rparr>"
  let ?sBA = "emptyStore\<lparr>CardProfiles := [profileRow ''A'' ''alice'' True 101 101,
                                profileRow ''B'' ''alice'' False 101 100]\<rparr>"
  have u: "contextUser alice = Some \<lparr>user_id = ''alice''\<rparr>"
    by (simp add: contextUser_def alice_def)
  have c: "cp_isDefault (profileInput ''B'' (Some True)) = Some True"
    by (simp add: profileInput_def)
  have d: "up_isDefault (profileChange ''A'' None (Some True)) = Some True"
    by (simp add: profileChange_def)
  have k: "distinct (map p_id (CardProfiles ?sAB))"
    by (simp add: emptyStore_def profileRow_def)
  have e2: "createProfile alice clock (profileInput ''B'' (Some True)) ?sA =
      (Inr (profileRow ''B'' ''alice'' True 101 102), ?sAB)"
    by (simp add: action_defs example_defs)
  have e3: "updateProfile alice clock (profileChange ''A'' None (Some True)) ?sAB =
      (Inr (Some (profileRow ''A'' ''alice'' True 101 101)), ?sBA)"
    by (simp add: action_defs example_defs)
  note t = single_default_profile [OF u, where ci = "profileInput ''B'' (Some True)"
      and env = clock and s = ?sA and p = "profileRow ''B'' ''alice'' True 101 102"
      and s' = ?sAB and ui = "profileChange ''A'' None (Some True)" and t = ?sAB
      and r = "Some (profileRow ''A'' ''alice'' True 101 101)" and t' = ?sBA]
  have f1: "filter (\<lambda>q. p_userId q = ''alice'' \<and> isDefault q)
     [profileRow ''A'' ''alice'' False 101 100, profileRow ''B'' ''alice'' True 101 102] =
    [profileRow ''B'' ''alice'' True 101 102]"
    using t c e2 by (simp add: emptyStore_def)
  have f2: "filter (\<lambda>q. p_userId q = ''alice'' \<and> isDefault q)
     [profileRow ''A'' ''alice'' True 101 101, profileRow ''B'' ''alice'' False 101 100] =
    [profileRow ''A'' ''alice'' True 101 101]"
    using t d k e3 by (auto simp: emptyStore_def)
  from u e2 e3 f1 f2 show ?thesis by blast
qed

lemma createDesign_primary:
  assumes u: "contextUser context = Some u"
    and d: "cd_isPrimaryDesign ci = Some True"
    and r: "createDesign context env ci s = (Inr p, s')"
  shows "filter (\<lambda>q. d_userId q = user_id u \<and> profileId q = cd_profileId ci \<and>
                      isPrimaryDesign q) (CardDesigns s') = [p]"
proof -
  let ?P = "\<lambda>q. d_userId q = user_id u \<and> profileId q = cd_profileId ci \<and> isPrimaryDesign q"
  let ?s1 = "updateDesigns (\<lambda>d. profileId d = cd_profileId ci \<and> d_userId d = user_id u)
               (clearPrimary (date env 0)) s"
  have cleared: "filter ?P (CardDesigns ?s1) = []"
    by (auto simp: updateDesigns_def filter_empty_conv clearPrimary_simps)
  from r have ins: "insertDesign p ?s1 = (Inr p, s')" and pp: "?P p"
    using u d
    by (auto simp: createDesign_def requireUser_Some truthy_def orFalse_def Let_def
        insertDesign_def split: if_splits option.splits)
  from ins have "CardDesigns s' = CardDesigns ?s1 @ [p]"
    by (auto simp: insertDesign_def split: if_splits)
  with cleared pp show ?thesis by simp
qed

lemma updateDesign_primary:
  assumes u: "contextUser context = Some u"
    and d: "ud_isPrimaryDesign ui = Some True"
    and k: "distinct (map d_id (CardDesigns s))"
    and r: "updateDesign context env ui s = (Inr r, s')"
  shows "\<exists>q. r = Some q \<and> d_id q = ud_id ui \<and>
           filter (\<lambda>q. d_userId q = user_id u \<and> profileId q = ud_profileId ui \<and>
                        isPrimaryDesign q) (CardDesigns s') = [q]"
proof -
  let ?c = "\<lambda>d. d_id d = ud_id ui"
  let ?g = "\<lambda>d. if profileId d = ud_profileId ui \<and> d_userId d = user_id u
                 then clearPrimary (date env 0) d else d"
  let ?f = "setDesign (defined (designEntries ui)) (date env 1)"
  let ?h = "\<lambda>d. if ?c (?g d) then ?f (?g d) else ?g d"
  let ?P = "\<lambda>q. d_userId q = user_id u \<and> profileId q = ud_profileId ui \<and> isPrimaryDesign q"
  have ne: "defined (designEntries ui) \<noteq> []"
    using d by (simp add: designEntries_empty noDesignFields_def)
  obtain x where x: "first (selectDesigns (\<lambda>d. d_id d = ud_id ui \<and> d_userId d = user_id u) s) = Some x"
    and px: "profileId x = ud_profileId ui"
    using r u
    by (cases "first (selectDesigns (\<lambda>d. d_id d = ud_id ui \<and> d_userId d = user_id u) s)")
      (auto simp: updateDesign_def requireUser_Some split: option.splits if_splits)
  then have xin: "x \<in> set (CardDesigns s)" and cx: "d_id x = ud_id ui" "d_userId x = user_id u"
    using first_filter_Some [of "\<lambda>d. d_id d = ud_id ui \<and> d_userId d = user_id u" "CardDesigns s" x]
    by (simp_all add: selectDesigns_def)
  have res: "r = first (map ?f (filter ?c (map ?g (CardDesigns s))))"
    and st: "CardDesigns s' = map ?h (CardDesigns s)"
    using r u x px d ne
    by (auto simp: updateDesign_def requireUser_Some truthy_def Let_def updateDesigns_def
        updatedDesigns_def split: option.splits)
  have cg: "?c (?g x)" using cx by (simp add: clearPrimary_simps)
  have one: "filter ?c (map ?g (CardDesigns s)) = [?g x]"
    by (rule filter_map_single [where key = d_id and P = ?c and h = ?g, OF k xin cg])
      (use cx in \<open>auto simp: clearPrimary_simps\<close>)
  have hx: "?h x = ?f (?g x)" using cg by simp
  have "filter ?P (map ?h (CardDesigns s)) = [?h x]"
  proof (rule filter_map_single [where key = d_id and P = ?P and h = ?h, OF k xin])
    show "?P (?h x)"
      unfolding hx using cx px d by (simp add: setDesign_keeps clearPrimary_simps)
  next
    fix y assume "y \<in> set (CardDesigns s)" and "d_id y \<noteq> d_id x"
    then show "\<not> ?P (?h y)"
      using cx by (auto simp: clearPrimary_simps)
  qed
  moreover have "r = Some (?h x)" using res one hx by (simp add: first_def)
  moreover have "d_id (?h x) = ud_id ui"
    unfolding hx using cx by (simp add: setDesign_keeps clearPrimary_simps)
  ultimately show ?thesis using st by simp
qed

text \<open>
  Claim C2. When \<^verbatim>\<open>createDesign\<close> or \<^verbatim>\<open>updateDesign\<close> completes for a caller with
  \<^verbatim>\<open>isPrimaryDesign\<close> true in its input, the design it returns is the only row of
  that caller and that profile whose \<^verbatim>\<open>isPrimaryDesign\<close> is true: the flag of the
  other designs of the profile and caller has been cleared. For \<^verbatim>\<open>updateDesign\<close>
  the table is one whose primary key holds.
\<close>

theorem single_primary_design:
  "contextUser context = Some u \<Longrightarrow>
   (cd_isPrimaryDesign ci = Some True \<and> createDesign context env ci s = (Inr d, s') \<longrightarrow>
      filter (\<lambda>q. d_userId q = user_id u \<and> profileId q = cd_profileId ci \<and>
                   isPrimaryDesign q) (CardDesigns s') = [d]) \<and>
   (ud_isPrimaryDesign ui = Some True \<and> distinct (map d_id (CardDesigns t)) \<and>
    updateDesign context env ui t = (Inr r, t') \<longrightarrow>
      (\<exists>q. r = Some q \<and> d_id q = ud_id ui \<and>
           filter (\<lambda>q. d_userId q = user_id u \<and> profileId q = ud_profileId ui \<and>
                        isPrimaryDesign q) (CardDesigns t') = [q]))"
proof (intro conjI impI)
  assume u: "contextUser context = Some u"
    and a: "cd_isPrimaryDesign ci = Some True \<and> createDesign context env ci s = (Inr d, s')"
  from a have "cd_isPrimaryDesign ci = Some True" "createDesign context env ci s = (Inr d, s')"
    by simp_all
  with u show "filter (\<lambda>q. d_userId q = user_id u \<and> profileId q = cd_profileId ci \<and>
                   isPrimaryDesign q) (CardDesigns s') = [d]"
    by (rule createDesign_primary)
next
  assume u: "contextUser context = Some u"
    and a: "ud_isPrimaryDesign ui = Some True \<and> distinct (map d_id (CardDesigns t)) \<and>
            updateDesign context env ui t = (Inr r, t')"
  from a have "ud_isPrimaryDesign ui = Some True" "distinct (map d_id (CardDesigns t))"
    "updateDesign context env ui t = (Inr r, t')"
    by simp_all
  with u show "\<exists>q. r = Some q \<and> d_id q = ud_id ui \<and>
           filter (\<lambda>q. d_userId q = user_id u \<and> profileId q = ud_profileId ui \<and>
                        isPrimaryDesign q) (CardDesigns t') = [q]"
    by (rule updateDesign_primary)
qed

theorem single_primary_design_witness:
  "contextUser alice = Some \<lparr>user_id = ''alice''\<rparr> \<and>
   createDesign alice clock (designInput ''D2'' ''A'' (Some True))
     (emptyStore\<lparr>CardProfiles := [profileRow ''A'' ''alice'' True 1 1,
                                profileRow ''B'' ''alice'' False 1 1],
                 CardDesigns := [designRow ''D1'' ''A'' ''alice'' True 2 2,
                                 designRow ''D0'' ''B'' ''alice'' True 2 2]\<rparr>) =
    (Inr (designRow ''D2'' ''A'' ''alice'' True 101 102),
     emptyStore\<lparr>CardProfiles := [profileRow ''A'' ''alice'' True 1 1,
                                profileRow ''B'' ''alice'' False 1 1],
                 CardDesigns := [designRow ''D1'' ''A'' ''alice'' False 2 100,
                                 designRow ''D0'' ''B'' ''alice'' True 2 2,
                                 designRow ''D2'' ''A'' ''alice'' True 101 102]\<rparr>) \<and>
   filter (\<lambda>q. d_userId q = ''alice'' \<and> profileId q = ''A'' \<and> isPrimaryDesign q)
     [designRow ''D1'' ''A'' ''alice'' False 2 100, designRow ''D0'' ''B'' ''alice'' True 2 2,
      designRow ''D2'' ''A'' ''alice'' True 101 102] =
    [designRow ''D2'' ''A'' ''alice'' True 101 102] \<and>
   updateDesign alice clock (designChange ''D1'' ''A'' None (Some True))
     (emptyStore\<lparr>CardProfiles := [profileRow ''A'' ''alice'' True 1 1,
                                profileRow ''B'' ''alice'' False 1 1],
                 CardDesigns := [designRow ''D1'' ''A'' ''alice'' False 2 100,
                                 designRow ''D0'' ''B'' ''alice'' True 2 2,
                                 designRow ''D2'' ''A'' ''alice'' True 101 102]\<rparr>) =
    (Inr (Some (designRow ''D1'' ''A'' ''alice'' True 2 101)),
     emptyStore\<lparr>CardProfiles := [profileRow ''A'' ''alice'' True 1 1,
                                profileRow ''B'' ''alice'' False 1 1],
                 CardDesigns := [designRow ''D1'' ''A'' ''alice'' True 2 101,
                                 designRow ''D0'' ''B'' ''alice'' True 2 2,
                                 designRow ''D2'' ''A'' ''alice'' False 101 100]\<rparr>) \<and>
   filter (\<lambda>q. d_userId q = ''alice'' \<and> profileId q = ''A'' \<and> isPrimaryDesign q)
     [designRow ''D1'' ''A'' ''alice'' True 2 101, designRow ''D0'' ''B'' ''alice'' True 2 2,
      designRow ''D2'' ''A'' ''alice'' False 101 100] =
    [designRow ''D1'' ''A'' ''alice'' True 2 101]"
proof -
  let ?ps = "[profileRow ''A'' ''alice'' True 1 1, profileRow ''B'' ''alice'' False 1 1]"
  let ?s0 = "emptyStore\<lparr>CardProfiles := ?ps,
                 CardDesigns := [designRow ''D1'' ''A'' ''alice'' True 2 2,
                                 designRow ''D0'' ''B'' ''alice'' True 2 2]\<rparr>"
  let ?s1 = "emptyStore\<lparr>CardProfiles := ?ps,
                 CardDesigns := [designRow ''D1'' ''A'' ''alice'' False 2 100,
                                 designRow ''D0'' ''B'' ''alice'' True 2 2,
                                 designRow ''D2'' ''A'' ''alice'' True 101 102]\<rparr>"
  let ?s2 = "emptyStore\<lparr>CardProfiles := ?ps,
                 CardDesigns := [designRow ''D1'' ''A'' ''alice'' True 2 101,
                                 designRow ''D0'' ''B'' ''alice'' True 2 2,
                                 designRow ''D2'' ''A'' ''alice'' False 101 100]\<rparr>"
  have u: "contextUser alice = Some \<lparr>user_id = ''alice''\<rparr>"
    by (simp add: contextUser_def alice_def)
  have c: "cd_isPrimaryDesign (designInput ''D2'' ''A'' (Some True)) = Some True"
    "cd_profileId (designInput ''D2'' ''A'' (Some True)) = ''A''"
    by (simp_all add: designInput_def)
  have d: "ud_isPrimaryDesign (designChange ''D1'' ''A'' None (Some True)) = Some True"
    "ud_profileId (designChange ''D1'' ''A'' None (Some True)) = ''A''"
    by (simp_all add: designChange_def)
  have k: "distinct (map d_id (CardDesigns ?s1))"
    by (simp add: emptyStore_def designRow_def)
  have e1: "createDesign alice clock (designInput ''D2'' ''A'' (Some True)) ?s0 =
      (Inr (designRow ''D2'' ''A'' ''alice'' True 101 102), ?s1)"
    by (simp add: action_defs example_defs)
  have e2: "updateDesign alice clock (designChange ''D1'' ''A'' None (Some True)) ?s1 =
      (Inr (Some (designRow ''D1'' ''A'' ''alice'' True 2 101)), ?s2)"
    by (simp add: action_defs example_defs)
  note t = single_primary_design [OF u, where ci = "designInput ''D2'' ''A'' (Some True)"
      and env = clock and s = ?s0 and d = "designRow ''D2'' ''A'' ''alice'' True 101 102"
      and s' = ?s1 and ui = "designChange ''D1'' ''A'' None (Some True)" and t = ?s1
      and r = "Some (designRow ''D1'' ''A'' ''alice'' True 2 101)" and t' = ?s2]
  have f1: "filter (\<lambda>q. d_userId q = ''alice'' \<and> profileId q = ''A'' \<and> isPrimaryDesign q)
     [designRow ''D1'' ''A'' ''alice'' False 2 100, designRow ''D0'' ''B'' ''alice'' True 2 2,
      designRow ''D2'' ''A'' ''alice'' True 101 102] =
    [designRow ''D2'' ''A'' ''alice'' True 101 102]"
    using t c e1 by (simp add: emptyStore_def)
  have f2: "filter (\<lambda>q. d_userId q = ''alice'' \<and> profileId q = ''A'' \<and> isPrimaryDesign q)
     [designRow ''D1'' ''A'' ''alice'' True 2 101, designRow ''D0'' ''B'' ''alice'' True 2 2,
      designRow ''D2'' ''A'' ''alice'' False 101 100] =
    [designRow ''D1'' ''A'' ''alice'' True 2 101]"
    using t d k e2 by (auto simp: emptyStore_def)
  from u e1 e2 f1 f2 show ?thesis by blast
qed

section \<open>Partial updates\<close>

subsection \<open>An update that provides nothing\<close>

lemma updateProfile_noop:
  assumes "contextUser context = Some u" "distinct (map p_id (CardProfiles s))"
    "noProfileFields i" "p \<in> set (CardProfiles s)" "p_id p = up_id i"
    "p_userId p = user_id u"
  shows "updateProfile context env i s = (Inr (Some p), s)"
proof -
  have "first (selectProfiles (\<lambda>p. p_id p = up_id i \<and> p_userId p = user_id u) s) = Some p"
    using assms by (intro owned_profile_first) auto
  moreover have "defined (profileEntries i) = []" "\<not> truthy (up_isDefault i)"
    using assms(3) by (simp_all add: profileEntries_empty noProfileFields_def truthy_def)
  ultimately show ?thesis
    using assms(1) by (simp add: updateProfile_def requireUser_Some)
qed

lemma updateDesign_noop:
  assumes "contextUser context = Some u" "distinct (map d_id (CardDesigns s))"
    "noDesignFields i" "ownsProfile u (ud_profileId i) s"
    "d \<in> set (CardDesigns s)" "d_id d = ud_id i" "d_userId d = user_id u"
    "profileId d = ud_profileId i"
  shows "updateDesign context env i s = (Inr (Some d), s)"
proof -
  have "first (selectDesigns (\<lambda>d. d_id d = ud_id i \<and> d_userId d = user_id u) s) = Some d"
    using assms by (intro owned_design_first) auto
  moreover obtain p where
    "first (selectProfiles (\<lambda>p. p_id p = ud_profileId i \<and> p_userId p = user_id u) s) = Some p"
    using ownsProfile_first [OF assms(4)] by blast
  moreover have "defined (designEntries i) = []" "\<not> truthy (ud_isPrimaryDesign i)"
    using assms(3) by (simp_all add: designEntries_empty noDesignFields_def truthy_def)
  ultimately show ?thesis
    using assms(1,8) by (simp add: updateDesign_def requireUser_Some)
qed

text \<open>
  Claim C5. An \<^verbatim>\<open>updateProfile\<close> or \<^verbatim>\<open>updateDesign\<close> on a record the caller owns,
  with every optional key omitted or undefined, returns the stored record as it is and
  writes nothing: the store after the call is the store before it, so the record, its
  \<^verbatim>\<open>updatedAt\<close> and every other row of both tables are unchanged. The record is
  owned when it is a row of its table with the \<^verbatim>\<open>id\<close> of the input and the caller's
  \<^verbatim>\<open>userId\<close>, and for a design when the \<^verbatim>\<open>profileId\<close> of the input is the design's
  and names a profile of the caller.
\<close>

theorem empty_update_is_noop:
  "contextUser context = Some u \<and> primaryKeys s \<Longrightarrow>
   (noProfileFields pi \<and> p \<in> set (CardProfiles s) \<and> p_id p = up_id pi \<and>
    p_userId p = user_id u \<longrightarrow>
      updateProfile context env pi s = (Inr (Some p), s)) \<and>
   (noDesignFields di \<and> ownsProfile u (ud_profileId di) s \<and> d \<in> set (CardDesigns s) \<and>
    d_id d = ud_id di \<and> d_userId d = user_id u \<and> profileId d = ud_profileId di \<longrightarrow>
      updateDesign context env di s = (Inr (Some d), s))"
proof (intro conjI impI)
  assume a: "contextUser context = Some u \<and> primaryKeys s"
    and b: "noProfileFields pi \<and> p \<in> set (CardProfiles s) \<and> p_id p = up_id pi \<and>
            p_userId p = user_id u"
  from a have "distinct (map p_id (CardProfiles s))"
    by (simp add: primaryKeys_def)
  with a b show "updateProfile context env pi s = (Inr (Some p), s)"
    by (intro updateProfile_noop) simp_all
next
  assume a: "contextUser context = Some u \<and> primaryKeys s"
    and b: "noDesignFields di \<and> ownsProfile u (ud_profileId di) s \<and>
            d \<in> set (CardDesigns s) \<and> d_id d = ud_id di \<and> d_userId d = user_id u \<and>
            profileId d = ud_profileId di"
  from a have "distinct (map d_id (CardDesigns s))"
    by (simp add: primaryKeys_def)
  with a b show "updateDesign context env di s = (Inr (Some d), s)"
    by (intro updateDesign_noop) simp_all
qed

theorem empty_update_is_noop_witness:
  "contextUser alice = Some \<lparr>user_id = ''alice''\<rparr> \<and> primaryKeys smallStore \<and>
   noProfileFields (profileChange ''A'' None None) \<and>
   profileRow ''A'' ''alice'' True 1 1 \<in> set (CardProfiles smallStore) \<and>
   updateProfile alice clock (profileChange ''A'' None None) smallStore =
     (Inr (Some (profileRow ''A'' ''alice'' True 1 1)), smallStore) \<and>
   noDesignFields (designChange ''D1'' ''A'' None None) \<and>
   ownsProfile \<lparr>user_id = ''alice''\<rparr> ''A'' smallStore \<and>
   designRow ''D1'' ''A'' ''alice'' True 2 2 \<in> set (CardDesigns smallStore) \<and>
   updateDesign alice clock (designChange ''D1'' ''A'' None None) smallStore =
     (Inr (Some (designRow ''D1'' ''A'' ''alice'' True 2 2)), smallStore)"
proof -
  have n: "noProfileFields (profileChange ''A'' None None)"
    "noDesignFields (designChange ''D1'' ''A'' None None)"
    by (simp_all add: noProfileFields_def noDesignFields_def profileChange_def designChange_def)
  have i: "p_id (profileRow ''A'' ''alice'' True 1 1) = up_id (profileChange ''A'' None None)"
    "p_userId (profileRow ''A'' ''alice'' True 1 1) = user_id \<lparr>user_id = ''alice''\<rparr>"
    "d_id (designRow ''D1'' ''A'' ''alice'' True 2 2) = ud_id (designChange ''D1'' ''A'' None None)"
    "d_userId (designRow ''D1'' ''A'' ''alice'' True 2 2) = user_id \<lparr>user_id = ''alice''\<rparr>"
    "profileId (designRow ''D1'' ''A'' ''alice'' True 2 2) =
       ud_profileId (designChange ''D1'' ''A'' None None)"
    "ud_profileId (designChange ''D1'' ''A'' None None) = ''A''"
    by (simp_all add: profileRow_def designRow_def profileChange_def designChange_def)
  note t = empty_update_is_noop [where u = "\<lparr>user_id = ''alice''\<rparr>" and s = smallStore
      and env = clock and pi = "profileChange ''A'' None None"
      and p = "profileRow ''A'' ''alice'' True 1 1"
      and di = "designChange ''D1'' ''A'' None None"
      and d = "designRow ''D1'' ''A'' ''alice'' True 2 2", of alice]
  show ?thesis
    using t n i smallStore_facts by simp
qed

subsection \<open>An update that provides something\<close>

lemma updateProfile_owned:
  fixes env :: Env and i :: UpdateProfileInput and u :: User
  assumes u: "contextUser context = Some u" and k: "distinct (map p_id (CardProfiles s))"
    and n: "\<not> noProfileFields i" and pin: "p \<in> set (CardProfiles s)"
    and pid: "p_id p = up_id i" and pu: "p_userId p = user_id u"
  defines "g \<equiv> \<lambda>r. if truthy (up_isDefault i) \<and> p_userId r = user_id u \<and> isDefault r
                     then clearDefault (date env 0) r else r"
    and "f \<equiv> setProfile (defined (profileEntries i))
                (date env (if truthy (up_isDefault i) then 1 else 0))"
  shows "updateProfile context env i s =
           (Inr (Some (f (g p))),
            s\<lparr>CardProfiles := map (\<lambda>r. if p_id r = up_id i \<and> p_userId r = user_id u
                                       then f (g r) else g r) (CardProfiles s)\<rparr>)"
proof -
  let ?c = "\<lambda>p. p_id p = up_id i \<and> p_userId p = user_id u"
  let ?s1 = "if truthy (up_isDefault i)
             then updateProfiles (\<lambda>p. p_userId p = user_id u \<and> isDefault p = True)
                    (clearDefault (date env 0)) s
             else s"
  have ex: "first (selectProfiles ?c s) = Some p"
    using k pin pid pu by (intro owned_profile_first) auto
  have ne: "length (defined (profileEntries i)) \<noteq> 0"
    using n by (simp add: profileEntries_empty)
  have run: "updateProfile context env i s =
      (Inr (first (updatedProfiles ?c f ?s1)), updateProfiles ?c f ?s1)"
    unfolding updateProfile_def requireUser_Some [OF u] Let_def f_def
    using ex ne by simp
  have s1: "?s1 = s\<lparr>CardProfiles := map g (CardProfiles s)\<rparr>"
    by (simp add: updateProfiles_def g_def)
  have cg: "\<And>r. ?c (g r) = ?c r"
    by (simp add: g_def clearDefault_simps)
  have one: "filter ?c (map g (CardProfiles s)) = [g p]"
    by (rule filter_map_single [where key = p_id and P = ?c and h = g, OF k pin])
      (use pid pu in \<open>auto simp: cg\<close>)
  have ret: "updatedProfiles ?c f ?s1 = [f (g p)]"
    unfolding s1 by (simp add: updatedProfiles_def one)
  have tab: "updateProfiles ?c f ?s1 =
      s\<lparr>CardProfiles := map (\<lambda>r. if ?c r then f (g r) else g r) (CardProfiles s)\<rparr>"
    unfolding s1 by (simp add: updateProfiles_def cg comp_def)
  show ?thesis
    unfolding run ret tab by simp
qed

lemma updateDesign_owned:
  fixes env :: Env and i :: UpdateDesignInput and u :: User
  assumes u: "contextUser context = Some u" and k: "distinct (map d_id (CardDesigns s))"
    and n: "\<not> noDesignFields i" and op: "ownsProfile u (ud_profileId i) s"
    and din: "d \<in> set (CardDesigns s)"
    and did: "d_id d = ud_id i" and du: "d_userId d = user_id u"
    and dp: "profileId d = ud_profileId i"
  defines "g \<equiv> \<lambda>r. if truthy (ud_isPrimaryDesign i) \<and> profileId r = ud_profileId i \<and>
                       d_userId r = user_id u
                     then clearPrimary (date env 0) r else r"
    and "f \<equiv> setDesign (defined (designEntries i))
                (date env (if truthy (ud_isPrimaryDesign i) then 1 else 0))"
  shows "updateDesign context env i s =
           (Inr (Some (f (g d))),
            s\<lparr>CardDesigns := map (\<lambda>r. if d_id r = ud_id i then f (g r) else g r)
                                (CardDesigns s)\<rparr>)"
proof -
  let ?c = "\<lambda>d. d_id d = ud_id i"
  let ?s1 = "if truthy (ud_isPrimaryDesign i)
             then updateDesigns (\<lambda>d. profileId d = ud_profileId i \<and> d_userId d = user_id u)
                    (clearPrimary (date env 0)) s
             else s"
  have ex: "first (selectDesigns (\<lambda>d. d_id d = ud_id i \<and> d_userId d = user_id u) s) = Some d"
    using k din did du by (intro owned_design_first) auto
  obtain p where
    pr: "first (selectProfiles (\<lambda>p. p_id p = ud_profileId i \<and> p_userId p = user_id u) s) = Some p"
    using ownsProfile_first [OF op] by blast
  have ne: "length (defined (designEntries i)) \<noteq> 0"
    using n by (simp add: designEntries_empty)
  have run: "updateDesign context env i s =
      (Inr (first (updatedDesigns ?c f ?s1)), updateDesigns ?c f ?s1)"
    unfolding updateDesign_def requireUser_Some [OF u] Let_def f_def
    using ex pr ne dp by simp
  have s1: "?s1 = s\<lparr>CardDesigns := map g (CardDesigns s)\<rparr>"
    by (simp add: updateDesigns_def g_def)
  have cg: "\<And>r. ?c (g r) = ?c r"
    by (simp add: g_def clearPrimary_simps)
  have one: "filter ?c (map g (CardDesigns s)) = [g d]"
    by (rule filter_map_single [where key = d_id and P = ?c and h = g, OF k din])
      (use did in \<open>auto simp: cg\<close>)
  have ret: "updatedDesigns ?c f ?s1 = [f (g d)]"
    unfolding s1 by (simp add: updatedDesigns_def one)
  have tab: "updateDesigns ?c f ?s1 =
      s\<lparr>CardDesigns := map (\<lambda>r. if ?c r then f (g r) else g r) (CardDesigns s)\<rparr>"
    unfolding s1 by (simp add: updateDesigns_def cg comp_def)
  show ?thesis
    unfolding run ret tab by simp
qed

lemma updateProfile_merge:
  fixes env :: Env and i :: UpdateProfileInput and u :: User
  assumes u: "contextUser context = Some u" and k: "distinct (map p_id (CardProfiles s))"
    and pin: "p \<in> set (CardProfiles s)"
    and pid: "p_id p = up_id i" and pu: "p_userId p = user_id u"
  defines "q \<equiv> (mergeProfile i p)\<lparr>p_updatedAt :=
                   if noProfileFields i then p_updatedAt p
                   else date env (if truthy (up_isDefault i) then 1 else 0)\<rparr>"
  shows "\<exists>s'. updateProfile context env i s = (Inr (Some q), s') \<and> q \<in> set (CardProfiles s')"
proof (cases "noProfileFields i")
  case True
  then have "updateProfile context env i s = (Inr (Some p), s)"
    using assms by (intro updateProfile_noop) auto
  moreover have "q = p"
    using True by (simp add: q_def mergeProfile_none)
  ultimately show ?thesis using pin by simp
next
  case False
  let ?g = "\<lambda>r. if truthy (up_isDefault i) \<and> p_userId r = user_id u \<and> isDefault r
                 then clearDefault (date env 0) r else r"
  let ?f = "setProfile (defined (profileEntries i))
                (date env (if truthy (up_isDefault i) then 1 else 0))"
  let ?h = "\<lambda>r. if p_id r = up_id i \<and> p_userId r = user_id u then ?f (?g r) else ?g r"
  have run: "updateProfile context env i s =
      (Inr (Some (?f (?g p))), s\<lparr>CardProfiles := map ?h (CardProfiles s)\<rparr>)"
    using updateProfile_owned [OF u k False pin pid pu] .
  have hp: "?h p = ?f (?g p)"
    using pid pu by simp
  have eq: "?f (?g p) = q"
    using False by (simp add: q_def setProfile_merge mergeProfile_clear truthy_def)
  have "?h p \<in> ?h ` set (CardProfiles s)"
    using pin by (rule imageI)
  then have "?f (?g p) \<in> set (map ?h (CardProfiles s))"
    unfolding hp by (simp only: set_map)
  then have "q \<in> set (map ?h (CardProfiles s))"
    unfolding eq .
  then show ?thesis
    unfolding run eq by simp
qed

lemma updateDesign_merge:
  fixes env :: Env and i :: UpdateDesignInput and u :: User
  assumes u: "contextUser context = Some u" and k: "distinct (map d_id (CardDesigns s))"
    and op: "ownsProfile u (ud_profileId i) s"
    and din: "d \<in> set (CardDesigns s)"
    and did: "d_id d = ud_id i" and du: "d_userId d = user_id u"
    and dp: "profileId d = ud_profileId i"
  defines "q \<equiv> (mergeDesign i d)\<lparr>d_updatedAt :=
                   if noDesignFields i then d_updatedAt d
                   else date env (if truthy (ud_isPrimaryDesign i) then 1 else 0)\<rparr>"
  shows "\<exists>s'. updateDesign context env i s = (Inr (Some q), s') \<and> q \<in> set (CardDesigns s')"
proof (cases "noDesignFields i")
  case True
  then have "updateDesign context env i s = (Inr (Some d), s)"
    using assms by (intro updateDesign_noop) auto
  moreover have "q = d"
    using True by (simp add: q_def mergeDesign_none)
  ultimately show ?thesis using din by simp
next
  case False
  let ?g = "\<lambda>r. if truthy (ud_isPrimaryDesign i) \<and> profileId r = ud_profileId i \<and>
                       d_userId r = user_id u
                 then clearPrimary (date env 0) r else r"
  let ?f = "setDesign (defined (designEntries i))
                (date env (if truthy (ud_isPrimaryDesign i) then 1 else 0))"
  let ?h = "\<lambda>r. if d_id r = ud_id i then ?f (?g r) else ?g r"
  have run: "updateDesign context env i s =
      (Inr (Some (?f (?g d))), s\<lparr>CardDesigns := map ?h (CardDesigns s)\<rparr>)"
    using updateDesign_owned [OF u k False op din did du dp] .
  have hp: "?h d = ?f (?g d)"
    using did by simp
  have eq: "?f (?g d) = q"
    using False by (simp add: q_def setDesign_merge mergeDesign_clear truthy_def)
  have "?h d \<in> ?h ` set (CardDesigns s)"
    using din by (rule imageI)
  then have "?f (?g d) \<in> set (map ?h (CardDesigns s))"
    unfolding hp by (simp only: set_map)
  then have "q \<in> set (map ?h (CardDesigns s))"
    unfolding eq .
  then show ?thesis
    unfolding run eq by simp
qed

text \<open>
  Claim C4. An \<^verbatim>\<open>updateProfile\<close> or \<^verbatim>\<open>updateDesign\<close> on a record the caller owns
  returns, and stores, the record in which exactly the fields the input provides (not
  undefined) hold the provided values and every field the input omits holds the value
  stored before: the row \<open>mergeProfile\<close>, or \<open>mergeDesign\<close>, of the input and the
  stored row. Its \<^verbatim>\<open>updatedAt\<close>, which is no field of the input, is the time of the
  write when the input provides a field.
\<close>

theorem update_overwrites_provided_fields:
  "contextUser context = Some u \<and> primaryKeys s \<Longrightarrow>
   (p \<in> set (CardProfiles s) \<and> p_id p = up_id pi \<and> p_userId p = user_id u \<longrightarrow>
      (\<exists>q s'. updateProfile context env pi s = (Inr (Some q), s') \<and>
          q \<in> set (CardProfiles s') \<and>
          q = (mergeProfile pi p)\<lparr>p_updatedAt :=
                 if noProfileFields pi then p_updatedAt p
                 else date env (if truthy (up_isDefault pi) then 1 else 0)\<rparr>)) \<and>
   (ownsProfile u (ud_profileId di) s \<and> d \<in> set (CardDesigns s) \<and> d_id d = ud_id di \<and>
    d_userId d = user_id u \<and> profileId d = ud_profileId di \<longrightarrow>
      (\<exists>q s'. updateDesign context env di s = (Inr (Some q), s') \<and>
          q \<in> set (CardDesigns s') \<and>
          q = (mergeDesign di d)\<lparr>d_updatedAt :=
                 if noDesignFields di then d_updatedAt d
                 else date env (if truthy (ud_isPrimaryDesign di) then 1 else 0)\<rparr>))"
proof (intro conjI impI)
  assume a: "contextUser context = Some u \<and> primaryKeys s"
    and b: "p \<in> set (CardProfiles s) \<and> p_id p = up_id pi \<and> p_userId p = user_id u"
  from a have k: "distinct (map p_id (CardProfiles s))" by (simp add: primaryKeys_def)
  from updateProfile_merge [OF _ k, of "context" u p pi env] a b
  show "\<exists>q s'. updateProfile context env pi s = (Inr (Some q), s') \<and>
          q \<in> set (CardProfiles s') \<and>
          q = (mergeProfile pi p)\<lparr>p_updatedAt :=
                 if noProfileFields pi then p_updatedAt p
                 else date env (if truthy (up_isDefault pi) then 1 else 0)\<rparr>"
    by blast
next
  assume a: "contextUser context = Some u \<and> primaryKeys s"
    and b: "ownsProfile u (ud_profileId di) s \<and> d \<in> set (CardDesigns s) \<and> d_id d = ud_id di \<and>
      d_userId d = user_id u \<and> profileId d = ud_profileId di"
  from a have k: "distinct (map d_id (CardDesigns s))" by (simp add: primaryKeys_def)
  from updateDesign_merge [OF _ k, of "context" u di d env] a b
  show "\<exists>q s'. updateDesign context env di s = (Inr (Some q), s') \<and>
          q \<in> set (CardDesigns s') \<and>
          q = (mergeDesign di d)\<lparr>d_updatedAt :=
                 if noDesignFields di then d_updatedAt d
                 else date env (if truthy (ud_isPrimaryDesign di) then 1 else 0)\<rparr>"
    by blast
qed

theorem update_overwrites_provided_fields_witness:
  "contextUser alice = Some \<lparr>user_id = ''alice''\<rparr> \<and> primaryKeys smallStore \<and>
   profileRow ''A'' ''alice'' True 1 1 \<in> set (CardProfiles smallStore) \<and>
   (\<exists>q s'. updateProfile alice clock (profileChange ''A'' (Some ''Paris'') None) smallStore =
             (Inr (Some q), s') \<and>
       q \<in> set (CardProfiles s') \<and>
       q = (profileRow ''A'' ''alice'' True 1 100)\<lparr>city := Some ''Paris''\<rparr>) \<and>
   ownsProfile \<lparr>user_id = ''alice''\<rparr> ''A'' smallStore \<and>
   designRow ''D1'' ''A'' ''alice'' True 2 2 \<in> set (CardDesigns smallStore) \<and>
   (\<exists>q s'. updateDesign alice clock (designChange ''D1'' ''A'' (Some ''Dark'') (Some False))
             smallStore = (Inr (Some q), s') \<and>
       q \<in> set (CardDesigns s') \<and>
       q = (designRow ''D1'' ''A'' ''alice'' False 2 100)\<lparr>designName := Some ''Dark''\<rparr>)"
proof -
  have i: "p_id (profileRow ''A'' ''alice'' True 1 1) = up_id (profileChange ''A'' (Some ''Paris'') None)"
    "p_userId (profileRow ''A'' ''alice'' True 1 1) = user_id \<lparr>user_id = ''alice''\<rparr>"
    "d_id (designRow ''D1'' ''A'' ''alice'' True 2 2) =
       ud_id (designChange ''D1'' ''A'' (Some ''Dark'') (Some False))"
    "d_userId (designRow ''D1'' ''A'' ''alice'' True 2 2) = user_id \<lparr>user_id = ''alice''\<rparr>"
    "profileId (designRow ''D1'' ''A'' ''alice'' True 2 2) =
       ud_profileId (designChange ''D1'' ''A'' (Some ''Dark'') (Some False))"
    "ud_profileId (designChange ''D1'' ''A'' (Some ''Dark'') (Some False)) = ''A''"
    by (simp_all add: profileRow_def designRow_def profileChange_def designChange_def)
  have m: "(mergeProfile (profileChange ''A'' (Some ''Paris'') None)
             (profileRow ''A'' ''alice'' True 1 1))\<lparr>p_updatedAt :=
               if noProfileFields (profileChange ''A'' (Some ''Paris'') None)
               then p_updatedAt (profileRow ''A'' ''alice'' True 1 1)
               else date clock (if truthy (up_isDefault (profileChange ''A'' (Some ''Paris'') None))
                                then 1 else 0)\<rparr> =
           (profileRow ''A'' ''alice'' True 1 100)\<lparr>city := Some ''Paris''\<rparr>"
    "(mergeDesign (designChange ''D1'' ''A'' (Some ''Dark'') (Some False))
             (designRow ''D1'' ''A'' ''alice'' True 2 2))\<lparr>d_updatedAt :=
               if noDesignFields (designChange ''D1'' ''A'' (Some ''Dark'') (Some False))
               then d_updatedAt (designRow ''D1'' ''A'' ''alice'' True 2 2)
               else date clock (if truthy (ud_isPrimaryDesign
                                   (designChange ''D1'' ''A'' (Some ''Dark'') (Some False)))
                                then 1 else 0)\<rparr> =
           (designRow ''D1'' ''A'' ''alice'' False 2 100)\<lparr>designName := Some ''Dark''\<rparr>"
    by (simp_all add: mergeProfile_def mergeDesign_def provided_def providedText_def
        noProfileFields_def noDesignFields_def truthy_def example_defs)
  note t = update_overwrites_provided_fields [where u = "\<lparr>user_id = ''alice''\<rparr>"
      and s = smallStore and env = clock
      and pi = "profileChange ''A'' (Some ''Paris'') None"
      and p = "profileRow ''A'' ''alice'' True 1 1"
      and di = "designChange ''D1'' ''A'' (Some ''Dark'') (Some False)"
      and d = "designRow ''D1'' ''A'' ''alice'' True 2 2", of alice]
  show ?thesis
    using t i smallStore_facts unfolding m by simp
qed

section \<open>Ownership\<close>

subsection \<open>Lookups that find nothing\<close>

lemma updateProfile_not_found:
  "contextUser context = Some u \<Longrightarrow> \<not> ownsProfile u (up_id i) s \<Longrightarrow>
   updateProfile context env i s = (Inl NOT_FOUND, s)"
  by (simp add: updateProfile_def requireUser_Some not_ownsProfile_first)

lemma filter_none: "\<forall>x\<in>set xs. \<not> c x \<Longrightarrow> filter (\<lambda>x. \<not> c x) xs = xs \<and> filter c xs = []"
  by (induction xs) auto

lemma deleteProfile_not_found:
  assumes "contextUser context = Some u" "\<not> ownsProfile u (dp_id i) s"
  shows "deleteProfile context i s = (Inl NOT_FOUND, s)"
proof -
  let ?c = "\<lambda>p. p_id p = dp_id i \<and> p_userId p = user_id u"
  have "\<forall>p\<in>set (CardProfiles s). \<not> ?c p"
    using assms(2) by (simp add: ownsProfile_def list_ex_iff)
  then have "filter (\<lambda>p. \<not> ?c p) (CardProfiles s) = CardProfiles s" "filter ?c (CardProfiles s) = []"
    using filter_none [of "CardProfiles s" ?c] by simp_all
  then have "deleteProfiles ?c s = (Inr [], s)"
    by (simp add: deleteProfiles_def list_ex_iff)
  then show ?thesis
    using assms(1) by (simp add: deleteProfile_def requireUser_Some)
qed

lemma createDesign_not_found:
  "contextUser context = Some u \<Longrightarrow> \<not> ownsProfile u (cd_profileId i) s \<Longrightarrow>
   createDesign context env i s = (Inl NOT_FOUND, s)"
  by (simp add: createDesign_def requireUser_Some not_ownsProfile_first)

lemma updateDesign_not_found:
  "contextUser context = Some u \<Longrightarrow>
   \<not> ownsProfile u (ud_profileId i) s \<or> \<not> ownsDesign u (ud_id i) s \<Longrightarrow>
   updateDesign context env i s = (Inl NOT_FOUND, s)"
  by (auto simp: updateDesign_def requireUser_Some not_ownsProfile_first not_ownsDesign_first
      split: option.splits)

lemma allowed_ownsProfile:
  "i \<in> set (map p_id (selectProfiles (\<lambda>p. p_userId p = user_id u) s)) \<longleftrightarrow> ownsProfile u i s"
  by (auto simp: selectProfiles_def ownsProfile_def list_ex_iff)

lemma listDesigns_truthy:
  assumes "contextUser context = Some u" "inputProfileId input = Some i" "i \<noteq> []"
  shows "listDesigns context input s =
           (if ownsProfile u i s
            then (Inr (filter (\<lambda>d. d_userId d = user_id u \<and> profileId d = i) (CardDesigns s)), s)
            else (Inl NOT_FOUND, s))"
proof -
  have "filter (\<lambda>d. profileId d = i) (filter (\<lambda>d. d_userId d = user_id u) (CardDesigns s)) =
        filter (\<lambda>d. d_userId d = user_id u \<and> profileId d = i) (CardDesigns s)"
    by (simp add: conj_commute)
  then show ?thesis
    using assms
    by (simp add: listDesigns_def requireUser_Some truthyText_def Let_def selectDesigns_def
        allowed_ownsProfile [simplified])
qed

lemma listDesigns_falsy:
  assumes "contextUser context = Some u" "\<not> truthyText (inputProfileId input)"
  shows "listDesigns context input s =
           (Inr (filter (\<lambda>d. d_userId d = user_id u \<and> ownsProfile u (profileId d) s)
                   (CardDesigns s)), s)"
proof -
  have "filter (\<lambda>d. ownsProfile u (profileId d) s)
          (filter (\<lambda>d. d_userId d = user_id u) (CardDesigns s)) =
        filter (\<lambda>d. d_userId d = user_id u \<and> ownsProfile u (profileId d) s) (CardDesigns s)"
    by (simp add: conj_commute)
  then show ?thesis
    using assms
    by (simp add: listDesigns_def requireUser_Some Let_def selectDesigns_def
        allowed_ownsProfile [simplified])
qed

subsection \<open>Rows of other users\<close>

lemma filter_map_frame:
  "(\<And>x. x \<in> set xs \<Longrightarrow> c x \<Longrightarrow> \<not> Q x \<and> \<not> Q (f x)) \<Longrightarrow>
   filter Q (map (\<lambda>x. if c x then f x else x) xs) = filter Q xs"
  by (induction xs) auto

lemma filter_filter_frame:
  "(\<And>x. x \<in> set xs \<Longrightarrow> c x \<Longrightarrow> \<not> Q x) \<Longrightarrow> filter Q (filter (\<lambda>x. \<not> c x) xs) = filter Q xs"
  by (induction xs) auto

lemma distinct_same_key:
  "distinct (map key xs) \<Longrightarrow> x \<in> set xs \<Longrightarrow> y \<in> set xs \<Longrightarrow> key y = key x \<Longrightarrow> y = x"
  by (meson distinct_map inj_onD)

lemma updateProfiles_others:
  assumes "\<forall>p. c p \<longrightarrow> p_userId p = user_id u \<and> p_userId (f p) = user_id u"
  shows "othersProfiles u (updateProfiles c f s) = othersProfiles u s"
    and "othersDesigns u (updateProfiles c f s) = othersDesigns u s"
  using assms
  by (simp_all add: othersProfiles_def othersDesigns_def updateProfiles_def filter_map_frame)

lemma updateDesigns_others:
  assumes "\<forall>d\<in>set (CardDesigns s). c d \<longrightarrow> d_userId d = user_id u \<and> d_userId (f d) = user_id u"
  shows "othersProfiles u (updateDesigns c f s) = othersProfiles u s"
    and "othersDesigns u (updateDesigns c f s) = othersDesigns u s"
  using assms
  by (simp_all add: othersProfiles_def othersDesigns_def updateDesigns_def filter_map_frame)

lemma insertProfile_others:
  "p_userId row = user_id u \<Longrightarrow>
   othersProfiles u (snd (insertProfile row s)) = othersProfiles u s \<and>
   othersDesigns u (snd (insertProfile row s)) = othersDesigns u s"
  by (simp add: othersProfiles_def othersDesigns_def insertProfile_def)

lemma insertDesign_others:
  "d_userId row = user_id u \<Longrightarrow>
   othersProfiles u (snd (insertDesign row s)) = othersProfiles u s \<and>
   othersDesigns u (snd (insertDesign row s)) = othersDesigns u s"
  by (simp add: othersProfiles_def othersDesigns_def insertDesign_def)

lemma deleteProfiles_others:
  "(\<And>p. c p \<Longrightarrow> p_userId p = user_id u) \<Longrightarrow>
   othersProfiles u (snd (deleteProfiles c s)) = othersProfiles u s \<and>
   othersDesigns u (snd (deleteProfiles c s)) = othersDesigns u s"
  by (auto simp: othersProfiles_def othersDesigns_def deleteProfiles_def Let_def
      intro!: filter_cong)

lemma createProfile_others:
  assumes "contextUser context = Some u"
  shows "othersProfiles u (snd (createProfile context env i s)) = othersProfiles u s \<and>
         othersDesigns u (snd (createProfile context env i s)) = othersDesigns u s"
  using assms
  by (simp add: createProfile_def requireUser_Some Let_def insertProfile_others
      updateProfiles_others clearDefault_simps)

lemma updateProfile_others:
  assumes "contextUser context = Some u"
  shows "othersProfiles u (snd (updateProfile context env i s)) = othersProfiles u s \<and>
         othersDesigns u (snd (updateProfile context env i s)) = othersDesigns u s"
  using assms
  by (simp add: updateProfile_def requireUser_Some Let_def updateProfiles_others
      clearDefault_simps setProfile_keeps split: option.splits)

lemma deleteProfile_others:
  assumes "contextUser context = Some u"
  shows "othersProfiles u (snd (deleteProfile context i s)) = othersProfiles u s \<and>
         othersDesigns u (snd (deleteProfile context i s)) = othersDesigns u s"
proof -
  let ?c = "\<lambda>p. p_id p = dp_id i \<and> p_userId p = user_id u"
  have "snd (deleteProfile context i s) = snd (deleteProfiles ?c s)"
    using assms
    by (cases "deleteProfiles ?c s")
      (auto simp: deleteProfile_def requireUser_Some split: sum.splits option.splits)
  then show ?thesis
    using deleteProfiles_others [of ?c u s] by simp
qed

lemma createDesign_others:
  assumes "contextUser context = Some u"
  shows "othersProfiles u (snd (createDesign context env i s)) = othersProfiles u s \<and>
         othersDesigns u (snd (createDesign context env i s)) = othersDesigns u s"
  using assms
  by (simp add: createDesign_def requireUser_Some Let_def insertDesign_others
      updateDesigns_others clearPrimary_simps split: option.splits)


lemma updateDesign_others:
  assumes u: "contextUser context = Some u" and k: "distinct (map d_id (CardDesigns s))"
  shows "othersProfiles u (snd (updateDesign context env i s)) = othersProfiles u s \<and>
         othersDesigns u (snd (updateDesign context env i s)) = othersDesigns u s"
proof (cases "ownsProfile u (ud_profileId i) s \<and> ownsDesign u (ud_id i) s")
  case False
  then show ?thesis
    using updateDesign_not_found [OF u, of i s env] by auto
next
  case True
  let ?c = "\<lambda>d. d_id d = ud_id i \<and> d_userId d = user_id u"
  let ?s1 = "if truthy (ud_isPrimaryDesign i)
             then updateDesigns (\<lambda>d. profileId d = ud_profileId i \<and> d_userId d = user_id u)
                    (clearPrimary (date env 0)) s
             else s"
  let ?f = "setDesign (defined (designEntries i))
              (date env (if truthy (ud_isPrimaryDesign i) then 1 else 0))"
  obtain x where x: "first (selectDesigns ?c s) = Some x"
    using True first_filter_None [of ?c "CardDesigns s"]
    by (cases "first (selectDesigns ?c s)")
      (auto simp: ownsDesign_def selectDesigns_def list_ex_iff)
  then have xin: "x \<in> set (CardDesigns s)" and xi: "d_id x = ud_id i"
    and xu: "d_userId x = user_id u"
    using first_filter_Some [of ?c "CardDesigns s" x] by (simp_all add: selectDesigns_def)
  have s1: "othersProfiles u ?s1 = othersProfiles u s \<and> othersDesigns u ?s1 = othersDesigns u s"
    by (simp add: updateDesigns_others clearPrimary_simps)
  have own: "\<forall>d\<in>set (CardDesigns ?s1). d_id d = ud_id i \<longrightarrow> d_userId d = user_id u"
  proof
    fix d assume "d \<in> set (CardDesigns ?s1)"
    then obtain y where y: "y \<in> set (CardDesigns s)" and dy: "d_id d = d_id y"
      "d_userId d = d_userId y"
      by (auto simp: updateDesigns_def clearPrimary_simps split: if_splits)
    show "d_id d = ud_id i \<longrightarrow> d_userId d = user_id u"
    proof
      assume "d_id d = ud_id i"
      then have "y = x"
        using distinct_same_key [OF k xin y] dy xi by simp
      then show "d_userId d = user_id u" using dy xu by simp
    qed
  qed
  have s2: "othersProfiles u (updateDesigns (\<lambda>d. d_id d = ud_id i) ?f ?s1) = othersProfiles u ?s1 \<and>
            othersDesigns u (updateDesigns (\<lambda>d. d_id d = ud_id i) ?f ?s1) = othersDesigns u ?s1"
    using own by (intro conjI updateDesigns_others) (simp_all add: setDesign_keeps)
  have "snd (updateDesign context env i s) = s \<or> snd (updateDesign context env i s) = ?s1 \<or>
        snd (updateDesign context env i s) = updateDesigns (\<lambda>d. d_id d = ud_id i) ?f ?s1"
    using u by (simp add: updateDesign_def requireUser_Some Let_def split: option.splits)
  then show ?thesis
    using s1 s2 by (elim disjE) simp_all
qed

lemma returns_snd: "snd (returns wrap r) = snd r"
  by (simp add: returns_def)

lemma server_others:
  assumes "contextUser context = Some u" "primaryKeys s"
  shows "othersProfiles u (snd (server context env req s)) = othersProfiles u s \<and>
         othersDesigns u (snd (server context env req s)) = othersDesigns u s"
proof (cases req)
  case (UpdateDesign i)
  then show ?thesis
    using assms updateDesign_others [of "context" u s env i]
    by (simp add: returns_snd primaryKeys_def)
qed (use assms in \<open>simp_all add: returns_snd createProfile_others updateProfile_others
      deleteProfile_others createDesign_others listProfiles_def listDesigns_def
      requireUser_Some Let_def\<close>)

text \<open>
  Claim C3, as amended. For an authenticated caller, \<^verbatim>\<open>updateProfile\<close>,
  \<^verbatim>\<open>deleteProfile\<close>, \<^verbatim>\<open>createDesign\<close>, \<^verbatim>\<open>updateDesign\<close>, and \<^verbatim>\<open>listDesigns\<close> with a
  profileId filter that is not the empty string, fail with \<open>NOT_FOUND\<close> whenever the
  profile or design they refer to does not exist or belongs to another user, and the
  store is then unchanged. No request of a caller changes or removes a row of another
  user: after every request to a store whose primary keys hold, the rows of the other
  users in both tables are the rows they were.
\<close>

theorem foreign_records_not_found:
  "contextUser context = Some u \<Longrightarrow>
   (\<not> ownsProfile u (up_id pi) s \<longrightarrow>
      updateProfile context env pi s = (Inl NOT_FOUND, s)) \<and>
   (\<not> ownsProfile u (dp_id xi) s \<longrightarrow>
      deleteProfile context xi s = (Inl NOT_FOUND, s)) \<and>
   (\<not> ownsProfile u (cd_profileId ci) s \<longrightarrow>
      createDesign context env ci s = (Inl NOT_FOUND, s)) \<and>
   (\<not> ownsProfile u (ud_profileId di) s \<or> \<not> ownsDesign u (ud_id di) s \<longrightarrow>
      updateDesign context env di s = (Inl NOT_FOUND, s)) \<and>
   (inputProfileId li = Some i \<and> i \<noteq> [] \<and> \<not> ownsProfile u i s \<longrightarrow>
      listDesigns context li s = (Inl NOT_FOUND, s)) \<and>
   (primaryKeys s \<longrightarrow>
      othersProfiles u (snd (server context env req s)) = othersProfiles u s \<and>
      othersDesigns u (snd (server context env req s)) = othersDesigns u s)"
proof (intro conjI impI)
  assume u: "contextUser context = Some u"
  show "updateProfile context env pi s = (Inl NOT_FOUND, s)" if "\<not> ownsProfile u (up_id pi) s"
    using u that by (rule updateProfile_not_found)
  show "deleteProfile context xi s = (Inl NOT_FOUND, s)" if "\<not> ownsProfile u (dp_id xi) s"
    using u that by (rule deleteProfile_not_found)
  show "createDesign context env ci s = (Inl NOT_FOUND, s)"
    if "\<not> ownsProfile u (cd_profileId ci) s"
    using u that by (rule createDesign_not_found)
  show "updateDesign context env di s = (Inl NOT_FOUND, s)"
    if "\<not> ownsProfile u (ud_profileId di) s \<or> \<not> ownsDesign u (ud_id di) s"
    using u that by (rule updateDesign_not_found)
  show "listDesigns context li s = (Inl NOT_FOUND, s)"
    if "inputProfileId li = Some i \<and> i \<noteq> [] \<and> \<not> ownsProfile u i s"
    using listDesigns_truthy [OF u, of li i s] that by simp
  show "othersProfiles u (snd (server context env req s)) = othersProfiles u s"
    and "othersDesigns u (snd (server context env req s)) = othersDesigns u s"
    if "primaryKeys s"
    using server_others [OF u that] by simp_all
qed

theorem foreign_records_not_found_witness:
  "contextUser alice = Some \<lparr>user_id = ''alice''\<rparr> \<and>
   \<not> ownsProfile \<lparr>user_id = ''alice''\<rparr> ''B'' smallStore \<and>
   primaryKeys smallStore \<and>
   updateProfile alice clock (profileChange ''B'' (Some ''Paris'') None) smallStore =
     (Inl NOT_FOUND, smallStore) \<and>
   deleteProfile alice \<lparr>dp_id = ''B''\<rparr> smallStore = (Inl NOT_FOUND, smallStore) \<and>
   createDesign alice clock (designInput ''D9'' ''B'' None) smallStore =
     (Inl NOT_FOUND, smallStore) \<and>
   updateDesign alice clock (designChange ''D2'' ''B'' (Some ''Dark'') None) smallStore =
     (Inl NOT_FOUND, smallStore) \<and>
   listDesigns alice (Some \<lparr>ld_profileId = Some ''B''\<rparr>) smallStore =
     (Inl NOT_FOUND, smallStore) \<and>
   othersProfiles \<lparr>user_id = ''alice''\<rparr>
     (snd (server alice clock (DeleteProfile \<lparr>dp_id = ''A''\<rparr>) smallStore)) =
     [profileRow ''B'' ''bob'' True 1 1] \<and>
   othersDesigns \<lparr>user_id = ''alice''\<rparr>
     (snd (server alice clock (DeleteProfile \<lparr>dp_id = ''A''\<rparr>) smallStore)) =
     [designRow ''D2'' ''B'' ''bob'' True 2 2]"
proof -
  have n: "\<not> ownsProfile \<lparr>user_id = ''alice''\<rparr> ''B'' smallStore"
    by (simp add: ownsProfile_def smallStore_def profileRow_def)
  have i: "up_id (profileChange ''B'' (Some ''Paris'') None) = ''B''"
    "dp_id \<lparr>dp_id = ''B''\<rparr> = ''B''"
    "cd_profileId (designInput ''D9'' ''B'' None) = ''B''"
    "ud_profileId (designChange ''D2'' ''B'' (Some ''Dark'') None) = ''B''"
    "inputProfileId (Some \<lparr>ld_profileId = Some ''B''\<rparr>) = Some ''B''"
    by (simp_all add: profileChange_def designInput_def designChange_def inputProfileId_def)
  have o: "othersProfiles \<lparr>user_id = ''alice''\<rparr> smallStore = [profileRow ''B'' ''bob'' True 1 1]"
    "othersDesigns \<lparr>user_id = ''alice''\<rparr> smallStore = [designRow ''D2'' ''B'' ''bob'' True 2 2]"
    by (simp_all add: othersProfiles_def othersDesigns_def smallStore_def profileRow_def
        designRow_def)
  note t = foreign_records_not_found [OF smallStore_facts(1), where s = smallStore
      and env = clock and pi = "profileChange ''B'' (Some ''Paris'') None"
      and xi = "\<lparr>dp_id = ''B''\<rparr>" and ci = "designInput ''D9'' ''B'' None"
      and di = "designChange ''D2'' ''B'' (Some ''Dark'') None"
      and li = "Some \<lparr>ld_profileId = Some ''B''\<rparr>" and i = "''B''"
      and req = "DeleteProfile \<lparr>dp_id = ''A''\<rparr>"]
  show ?thesis
    using t n smallStore_facts(1,2) unfolding i o by simp
qed

text \<open>
  Claim C3 as stated fails for \<^verbatim>\<open>listDesigns\<close>: the handler tests
  \<^verbatim>\<open>input?.profileId\<close> for truth, so the empty string, which the schema accepts and
  which names no profile of the caller here, is no filter at all and the call returns
  the caller's designs instead of \<open>NOT_FOUND\<close>.
\<close>

theorem listDesigns_empty_filter_counterexample:
  "inputProfileId (Some \<lparr>ld_profileId = Some ''''\<rparr>) = Some '''' \<and>
   \<not> ownsProfile \<lparr>user_id = ''bob''\<rparr> '''' smallStore \<and>
   listDesigns bob (Some \<lparr>ld_profileId = Some ''''\<rparr>) smallStore =
     (Inr [designRow ''D2'' ''B'' ''bob'' True 2 2], smallStore)"
  by (simp add: action_defs example_defs smallStore_def ownsProfile_def)

section \<open>Listing designs\<close>

text \<open>
  Claim C6, as amended. For an authenticated caller, \<^verbatim>\<open>listDesigns\<close> with a profileId
  filter that is not the empty string fails with \<open>NOT_FOUND\<close> when the filter names no
  profile of the caller; when it names one, the call returns exactly the caller's
  designs whose \<^verbatim>\<open>profileId\<close> is the filter, in the order of the table.
\<close>

theorem listDesigns_filter:
  "contextUser context = Some u \<and> inputProfileId input = Some i \<and> i \<noteq> [] \<Longrightarrow>
   (\<not> ownsProfile u i s \<longrightarrow> listDesigns context input s = (Inl NOT_FOUND, s)) \<and>
   (ownsProfile u i s \<longrightarrow>
      listDesigns context input s =
        (Inr (filter (\<lambda>d. d_userId d = user_id u \<and> profileId d = i) (CardDesigns s)), s))"
proof -
  assume a: "contextUser context = Some u \<and> inputProfileId input = Some i \<and> i \<noteq> []"
  then have "listDesigns context input s =
           (if ownsProfile u i s
            then (Inr (filter (\<lambda>d. d_userId d = user_id u \<and> profileId d = i) (CardDesigns s)), s)
            else (Inl NOT_FOUND, s))"
    by (intro listDesigns_truthy) simp_all
  then show ?thesis by simp
qed

theorem listDesigns_filter_witness:
  "contextUser alice = Some \<lparr>user_id = ''alice''\<rparr> \<and>
   inputProfileId (Some \<lparr>ld_profileId = Some ''B''\<rparr>) = Some ''B'' \<and>
   \<not> ownsProfile \<lparr>user_id = ''alice''\<rparr> ''B'' smallStore \<and>
   listDesigns alice (Some \<lparr>ld_profileId = Some ''B''\<rparr>) smallStore =
     (Inl NOT_FOUND, smallStore) \<and>
   inputProfileId (Some \<lparr>ld_profileId = Some ''A''\<rparr>) = Some ''A'' \<and>
   ownsProfile \<lparr>user_id = ''alice''\<rparr> ''A'' smallStore \<and>
   listDesigns alice (Some \<lparr>ld_profileId = Some ''A''\<rparr>) smallStore =
     (Inr [designRow ''D1'' ''A'' ''alice'' True 2 2], smallStore)"
proof -
  have i: "inputProfileId (Some \<lparr>ld_profileId = Some ''B''\<rparr>) = Some ''B''"
    "inputProfileId (Some \<lparr>ld_profileId = Some ''A''\<rparr>) = Some ''A''"
    by (simp_all add: inputProfileId_def)
  have n: "\<not> ownsProfile \<lparr>user_id = ''alice''\<rparr> ''B'' smallStore"
    by (simp add: ownsProfile_def smallStore_def profileRow_def)
  have f: "filter (\<lambda>d. d_userId d = user_id \<lparr>user_id = ''alice''\<rparr> \<and> profileId d = ''A'')
             (CardDesigns smallStore) = [designRow ''D1'' ''A'' ''alice'' True 2 2]"
    by (simp add: smallStore_def designRow_def)
  have b: "listDesigns alice (Some \<lparr>ld_profileId = Some ''B''\<rparr>) smallStore =
     (Inl NOT_FOUND, smallStore)"
    using listDesigns_filter [of alice "\<lparr>user_id = ''alice''\<rparr>"
        "Some \<lparr>ld_profileId = Some ''B''\<rparr>" "''B''" smallStore] smallStore_facts(1) i n
    by simp
  have a: "listDesigns alice (Some \<lparr>ld_profileId = Some ''A''\<rparr>) smallStore =
     (Inr [designRow ''D1'' ''A'' ''alice'' True 2 2], smallStore)"
    using listDesigns_filter [of alice "\<lparr>user_id = ''alice''\<rparr>"
        "Some \<lparr>ld_profileId = Some ''A''\<rparr>" "''A''" smallStore] smallStore_facts(1,5) i f
    by simp
  from smallStore_facts(1,5) i n a b show ?thesis by simp
qed

text \<open>
  Claim C6 as stated fails at the empty string. When it names no profile of the caller
  the call does not fail; when the caller has a profile whose \<^verbatim>\<open>id\<close> is the empty
  string, the call returns a design of another of the caller's profiles.
\<close>

theorem listDesigns_filter_counterexample:
  "inputProfileId (Some \<lparr>ld_profileId = Some ''''\<rparr>) = Some '''' \<and>
   \<not> ownsProfile \<lparr>user_id = ''alice''\<rparr> '''' smallStore \<and>
   listDesigns alice (Some \<lparr>ld_profileId = Some ''''\<rparr>) smallStore =
     (Inr [designRow ''D1'' ''A'' ''alice'' True 2 2], smallStore) \<and>
   ownsProfile \<lparr>user_id = ''alice''\<rparr> '''' blankStore \<and>
   listDesigns alice (Some \<lparr>ld_profileId = Some ''''\<rparr>) blankStore =
     (Inr [designRow ''D1'' ''A'' ''alice'' True 2 2], blankStore) \<and>
   profileId (designRow ''D1'' ''A'' ''alice'' True 2 2) \<noteq> ''''"
  by (simp add: action_defs example_defs smallStore_def blankStore_def ownsProfile_def)

text \<open>
  Claim C10. For an authenticated caller, \<^verbatim>\<open>listDesigns\<close> without a profileId filter
  (none is given, or the empty string, which the handler takes for none) returns the caller's designs whose \<^verbatim>\<open>profileId\<close> is the \<^verbatim>\<open>id\<close> of a profile the
  caller has now, and no other: a design that still carries the caller's \<^verbatim>\<open>userId\<close>
  but whose profile is gone is not in the result.
\<close>

theorem listDesigns_unfiltered_skips_orphans:
  "contextUser context = Some u \<and>
   (inputProfileId input = None \<or> inputProfileId input = Some []) \<Longrightarrow>
   listDesigns context input s =
     (Inr (filter (\<lambda>d. d_userId d = user_id u \<and> ownsProfile u (profileId d) s)
             (CardDesigns s)), s) \<and>
   (d \<in> set (CardDesigns s) \<and> d_userId d = user_id u \<and> \<not> ownsProfile u (profileId d) s \<longrightarrow>
      (\<exists>ds. listDesigns context input s = (Inr ds, s) \<and> d \<notin> set ds))"
proof -
  assume a: "contextUser context = Some u \<and>
    (inputProfileId input = None \<or> inputProfileId input = Some [])"
  then have "\<not> truthyText (inputProfileId input)"
    by (auto simp: truthyText_def)
  with a have "listDesigns context input s =
     (Inr (filter (\<lambda>d. d_userId d = user_id u \<and> ownsProfile u (profileId d) s)
             (CardDesigns s)), s)"
    by (intro listDesigns_falsy) simp_all
  then show ?thesis by simp
qed

theorem listDesigns_unfiltered_skips_orphans_witness:
  "contextUser alice = Some \<lparr>user_id = ''alice''\<rparr> \<and>
   inputProfileId None = None \<and>
   deleteProfile alice \<lparr>dp_id = ''A''\<rparr> smallStore =
     (Inr (profileRow ''A'' ''alice'' True 1 1),
      smallStore\<lparr>CardProfiles := [profileRow ''B'' ''bob'' True 1 1]\<rparr>) \<and>
   designRow ''D1'' ''A'' ''alice'' True 2 2 \<in>
     set (CardDesigns (smallStore\<lparr>CardProfiles := [profileRow ''B'' ''bob'' True 1 1]\<rparr>)) \<and>
   d_userId (designRow ''D1'' ''A'' ''alice'' True 2 2) = ''alice'' \<and>
   \<not> ownsProfile \<lparr>user_id = ''alice''\<rparr> ''A''
       (smallStore\<lparr>CardProfiles := [profileRow ''B'' ''bob'' True 1 1]\<rparr>) \<and>
   listDesigns alice None (smallStore\<lparr>CardProfiles := [profileRow ''B'' ''bob'' True 1 1]\<rparr>) =
     (Inr [], smallStore\<lparr>CardProfiles := [profileRow ''B'' ''bob'' True 1 1]\<rparr>)"
proof -
  let ?s = "smallStore\<lparr>CardProfiles := [profileRow ''B'' ''bob'' True 1 1]\<rparr>"
  have i: "inputProfileId None = None"
    by (simp add: inputProfileId_def)
  have del: "deleteProfile alice \<lparr>dp_id = ''A''\<rparr> smallStore =
     (Inr (profileRow ''A'' ''alice'' True 1 1), ?s)"
    by (simp add: action_defs example_defs smallStore_def)
  have o: "designRow ''D1'' ''A'' ''alice'' True 2 2 \<in> set (CardDesigns ?s)"
    "d_userId (designRow ''D1'' ''A'' ''alice'' True 2 2) = ''alice''"
    "\<not> ownsProfile \<lparr>user_id = ''alice''\<rparr> ''A'' ?s"
    by (simp_all add: smallStore_def designRow_def profileRow_def ownsProfile_def)
  have f: "filter (\<lambda>d. d_userId d = user_id \<lparr>user_id = ''alice''\<rparr> \<and>
                        ownsProfile \<lparr>user_id = ''alice''\<rparr> (profileId d) ?s)
             (CardDesigns ?s) = []"
    by (simp add: smallStore_def designRow_def profileRow_def ownsProfile_def)
  have l: "listDesigns alice None ?s = (Inr [], ?s)"
    using listDesigns_unfiltered_skips_orphans [of alice "\<lparr>user_id = ''alice''\<rparr>" None ?s]
      smallStore_facts(1) i f
    by simp
  from smallStore_facts(1) i del o l show ?thesis by simp
qed

section \<open>Deleting a profile\<close>

lemma deleteProfile_cases:
  fixes i :: DeleteProfileInput and u :: User
  assumes u: "contextUser context = Some u"
  defines "c \<equiv> \<lambda>p. p_id p = dp_id i \<and> p_userId p = user_id u"
  shows "deleteProfile context i s =
     (if foreignKeys s \<and>
         list_ex (\<lambda>d. profileId d \<in> set (map p_id (filter c (CardProfiles s)))) (CardDesigns s)
      then (Inl CONSTRAINT, s)
      else case first (filter c (CardProfiles s)) of
             None \<Rightarrow> (Inl NOT_FOUND, s)
           | Some p \<Rightarrow> (Inr p, s\<lparr>CardProfiles := filter (\<lambda>p. \<not> c p) (CardProfiles s)\<rparr>))"
proof (cases "first (filter c (CardProfiles s))")
  case None
  then have "\<not> ownsProfile u (dp_id i) s"
    by (simp add: first_filter_None ownsProfile_def list_ex_iff c_def)
  moreover from None have "filter c (CardProfiles s) = []"
    by (simp add: first_filter_None filter_empty_conv)
  ultimately show ?thesis
    using deleteProfile_not_found [OF u, of i s] None by (simp add: list_ex_iff)
next
  case (Some p)
  then show ?thesis
    using u by (simp add: deleteProfile_def requireUser_Some deleteProfiles_def Let_def c_def)
qed

lemma deleted_referenced:
  assumes "ownsProfile u i s"
  shows "list_ex (\<lambda>d. profileId d \<in>
            set (map p_id (filter (\<lambda>p. p_id p = i \<and> p_userId p = user_id u) (CardProfiles s))))
           (CardDesigns s) \<longleftrightarrow> referencedProfile i s"
proof -
  have "set (map p_id (filter (\<lambda>p. p_id p = i \<and> p_userId p = user_id u) (CardProfiles s))) = {i}"
    using assms by (auto simp: ownsProfile_def list_ex_iff)
  then show ?thesis
    by (simp add: referencedProfile_def)
qed

text \<open>
  Claim C9, as amended. For an authenticated caller, \<^verbatim>\<open>deleteProfile\<close> leaves the
  table \<^verbatim>\<open>CardDesigns\<close> as it was, whatever its outcome: nothing is cascaded. When the
  caller owns no profile with the given \<^verbatim>\<open>id\<close> it fails with \<open>NOT_FOUND\<close>. When the
  caller owns one, a design refers to it and the store enforces the reference the
  schema declares, the store refuses the delete and nothing is removed. Otherwise (no
  design refers to the profile, or the store does not enforce the reference) it removes
  from \<^verbatim>\<open>CardProfiles\<close> the rows with that \<^verbatim>\<open>id\<close> and the caller's \<^verbatim>\<open>userId\<close> and no
  other, and returns one of them; designs that refer to it then stay in the table.
\<close>

theorem deleteProfile_no_cascade:
  "contextUser context = Some u \<Longrightarrow>
   CardDesigns (snd (deleteProfile context input s)) = CardDesigns s \<and>
   (\<not> ownsProfile u (dp_id input) s \<longrightarrow>
      deleteProfile context input s = (Inl NOT_FOUND, s)) \<and>
   (ownsProfile u (dp_id input) s \<and> foreignKeys s \<and> referencedProfile (dp_id input) s \<longrightarrow>
      deleteProfile context input s = (Inl CONSTRAINT, s)) \<and>
   (ownsProfile u (dp_id input) s \<and> \<not> (foreignKeys s \<and> referencedProfile (dp_id input) s) \<longrightarrow>
      (\<exists>p. p \<in> set (CardProfiles s) \<and> p_id p = dp_id input \<and> p_userId p = user_id u \<and>
           deleteProfile context input s =
             (Inr p, s\<lparr>CardProfiles :=
                         filter (\<lambda>q. \<not> (p_id q = dp_id input \<and> p_userId q = user_id u))
                           (CardProfiles s)\<rparr>)))"
proof -
  assume u: "contextUser context = Some u"
  let ?c = "\<lambda>p. p_id p = dp_id input \<and> p_userId p = user_id u"
  note run = deleteProfile_cases [OF u, of input s]
  have nf: "deleteProfile context input s = (Inl NOT_FOUND, s)"
    if "\<not> ownsProfile u (dp_id input) s"
    using u that by (rule deleteProfile_not_found)
  have refused: "deleteProfile context input s = (Inl CONSTRAINT, s)"
    if "ownsProfile u (dp_id input) s" "foreignKeys s" "referencedProfile (dp_id input) s"
    using run that deleted_referenced [of u "dp_id input" s] by simp
  have removed: "\<exists>p. p \<in> set (CardProfiles s) \<and> p_id p = dp_id input \<and> p_userId p = user_id u \<and>
           deleteProfile context input s =
             (Inr p, s\<lparr>CardProfiles := filter (\<lambda>q. \<not> ?c q) (CardProfiles s)\<rparr>)"
    if o: "ownsProfile u (dp_id input) s"
      and n: "\<not> (foreignKeys s \<and> referencedProfile (dp_id input) s)"
  proof -
    obtain p where p: "first (filter ?c (CardProfiles s)) = Some p"
      using ownsProfile_first [OF o] by (auto simp: selectProfiles_def)
    then have "p \<in> set (CardProfiles s)" "?c p"
      using first_filter_Some [of ?c "CardProfiles s" p] by simp_all
    moreover have "deleteProfile context input s =
        (Inr p, s\<lparr>CardProfiles := filter (\<lambda>q. \<not> ?c q) (CardProfiles s)\<rparr>)"
      using run p n deleted_referenced [OF o] by simp
    ultimately show ?thesis by blast
  qed
  have designs: "CardDesigns (snd (deleteProfile context input s)) = CardDesigns s"
  proof (cases "ownsProfile u (dp_id input) s")
    case False
    then show ?thesis using nf by simp
  next
    case True
    show ?thesis
    proof (cases "foreignKeys s \<and> referencedProfile (dp_id input) s")
      case True
      then show ?thesis using refused \<open>ownsProfile u (dp_id input) s\<close> by simp
    next
      case False
      then show ?thesis using removed [OF True] by auto
    qed
  qed
  from designs nf refused removed show ?thesis by blast
qed

theorem deleteProfile_no_cascade_witness:
  "contextUser alice = Some \<lparr>user_id = ''alice''\<rparr> \<and>
   \<not> ownsProfile \<lparr>user_id = ''alice''\<rparr> ''B'' strictStore \<and>
   deleteProfile alice \<lparr>dp_id = ''B''\<rparr> strictStore = (Inl NOT_FOUND, strictStore) \<and>
   ownsProfile \<lparr>user_id = ''alice''\<rparr> ''A'' strictStore \<and> foreignKeys strictStore \<and>
   referencedProfile ''A'' strictStore \<and>
   deleteProfile alice \<lparr>dp_id = ''A''\<rparr> strictStore = (Inl CONSTRAINT, strictStore) \<and>
   ownsProfile \<lparr>user_id = ''alice''\<rparr> ''C'' strictStore \<and>
   \<not> referencedProfile ''C'' strictStore \<and>
   snd (deleteProfile alice \<lparr>dp_id = ''C''\<rparr> strictStore) =
     strictStore\<lparr>CardProfiles := [profileRow ''A'' ''alice'' True 1 1,
                                 profileRow ''B'' ''bob'' True 1 1]\<rparr> \<and>
   ownsProfile \<lparr>user_id = ''alice''\<rparr> ''A'' smallStore \<and> \<not> foreignKeys smallStore \<and>
   referencedProfile ''A'' smallStore \<and>
   snd (deleteProfile alice \<lparr>dp_id = ''A''\<rparr> smallStore) =
     smallStore\<lparr>CardProfiles := [profileRow ''B'' ''bob'' True 1 1]\<rparr> \<and>
   CardDesigns (snd (deleteProfile alice \<lparr>dp_id = ''A''\<rparr> smallStore)) =
     [designRow ''D1'' ''A'' ''alice'' True 2 2, designRow ''D2'' ''B'' ''bob'' True 2 2]"
proof -
  let ?u = "\<lparr>user_id = ''alice''\<rparr>"
  have h: "\<not> ownsProfile ?u ''B'' strictStore" "ownsProfile ?u ''A'' strictStore"
    "foreignKeys strictStore" "referencedProfile ''A'' strictStore"
    "ownsProfile ?u ''C'' strictStore" "\<not> referencedProfile ''C'' strictStore"
    "ownsProfile ?u ''A'' smallStore" "\<not> foreignKeys smallStore"
    "referencedProfile ''A'' smallStore"
    by (simp_all add: ownsProfile_def referencedProfile_def strictStore_def smallStore_def
        profileRow_def designRow_def)
  have f: "filter (\<lambda>q. \<not> (p_id q = ''C'' \<and> p_userId q = ''alice'')) (CardProfiles strictStore) =
             [profileRow ''A'' ''alice'' True 1 1, profileRow ''B'' ''bob'' True 1 1]"
    "filter (\<lambda>q. \<not> (p_id q = ''A'' \<and> p_userId q = ''alice'')) (CardProfiles smallStore) =
             [profileRow ''B'' ''bob'' True 1 1]"
    "CardDesigns smallStore =
       [designRow ''D1'' ''A'' ''alice'' True 2 2, designRow ''D2'' ''B'' ''bob'' True 2 2]"
    by (simp_all add: strictStore_def smallStore_def profileRow_def designRow_def)
  have b: "deleteProfile alice \<lparr>dp_id = ''B''\<rparr> strictStore = (Inl NOT_FOUND, strictStore)"
    using deleteProfile_no_cascade [OF smallStore_facts(1), of "\<lparr>dp_id = ''B''\<rparr>" strictStore] h
    by simp
  have a: "deleteProfile alice \<lparr>dp_id = ''A''\<rparr> strictStore = (Inl CONSTRAINT, strictStore)"
    using deleteProfile_no_cascade [OF smallStore_facts(1), of "\<lparr>dp_id = ''A''\<rparr>" strictStore] h
    by simp
  have c: "snd (deleteProfile alice \<lparr>dp_id = ''C''\<rparr> strictStore) =
     strictStore\<lparr>CardProfiles := [profileRow ''A'' ''alice'' True 1 1,
                                 profileRow ''B'' ''bob'' True 1 1]\<rparr>"
    using deleteProfile_no_cascade [OF smallStore_facts(1), of "\<lparr>dp_id = ''C''\<rparr>" strictStore] h f
    by auto
  have d: "snd (deleteProfile alice \<lparr>dp_id = ''A''\<rparr> smallStore) =
     smallStore\<lparr>CardProfiles := [profileRow ''B'' ''bob'' True 1 1]\<rparr>"
    "CardDesigns (snd (deleteProfile alice \<lparr>dp_id = ''A''\<rparr> smallStore)) =
     [designRow ''D1'' ''A'' ''alice'' True 2 2, designRow ''D2'' ''B'' ''bob'' True 2 2]"
    using deleteProfile_no_cascade [OF smallStore_facts(1), of "\<lparr>dp_id = ''A''\<rparr>" smallStore] h f
    by auto
  from smallStore_facts(1) h a b c d show ?thesis by simp
qed

text \<open>
  Claim C9 as stated fails on a store that enforces the reference from
  \<^verbatim>\<open>CardDesigns.profileId\<close> to \<^verbatim>\<open>CardProfiles.id\<close>: the delete of a profile that a
  design refers to is refused, the profile is still stored, and no orphan arises.
\<close>

theorem deleteProfile_referenced_counterexample:
  "foreignKeys strictStore \<and>
   profileRow ''A'' ''alice'' True 1 1 \<in> set (CardProfiles strictStore) \<and>
   designRow ''D1'' ''A'' ''alice'' True 2 2 \<in> set (CardDesigns strictStore) \<and>
   profileId (designRow ''D1'' ''A'' ''alice'' True 2 2) = ''A'' \<and>
   deleteProfile alice \<lparr>dp_id = ''A''\<rparr> strictStore = (Inl CONSTRAINT, strictStore)"
  by (simp add: action_defs example_defs strictStore_def)

section \<open>The operations of \<^verbatim>\<open>server\<close>\<close>

lemma updateDesigns_ids:
  "(\<And>d. d_id (f d) = d_id d) \<Longrightarrow>
   map d_id (CardDesigns (updateDesigns c f s)) = map d_id (CardDesigns s)"
  by (simp add: updateDesigns_def comp_def)

lemma insertDesign_ids:
  assumes "map d_id (CardDesigns s1) = map d_id (CardDesigns s)"
  shows "take (length (CardDesigns s)) (map d_id (CardDesigns (snd (insertDesign row s1)))) =
         map d_id (CardDesigns s)"
proof -
  have "length (CardDesigns s1) = length (CardDesigns s)"
    using assms by (metis length_map)
  then show ?thesis
    using assms by (simp add: insertDesign_def)
qed

lemma createDesign_ids:
  "take (length (CardDesigns s)) (map d_id (CardDesigns (snd (createDesign context env i s)))) =
   map d_id (CardDesigns s)"
  by (cases "requireUser context")
    (simp_all add: createDesign_def Let_def insertDesign_ids updateDesigns_ids clearPrimary_simps
      split: option.splits)

lemma updateDesign_ids:
  "map d_id (CardDesigns (snd (updateDesign context env i s))) = map d_id (CardDesigns s)"
  by (cases "requireUser context")
    (auto simp: updateDesign_def Let_def updateDesigns_ids clearPrimary_simps setDesign_keeps
      split: option.splits)

lemma profile_actions_designs:
  "CardDesigns (snd (createProfile context env ci s)) = CardDesigns s"
  "CardDesigns (snd (updateProfile context env ui s)) = CardDesigns s"
  "CardDesigns (snd (listProfiles context s)) = CardDesigns s"
  "CardDesigns (snd (deleteProfile context xi s)) = CardDesigns s"
  "CardDesigns (snd (listDesigns context li s)) = CardDesigns s"
  by (cases "requireUser context";
      simp add: createProfile_def updateProfile_def listProfiles_def deleteProfile_def
        listDesigns_def deleteProfiles_def insertProfile_def updateProfiles_def Let_def
      split: option.splits)+

lemma server_keeps_designs:
  "take (length (CardDesigns s)) (map d_id (CardDesigns (snd (server context env req s)))) =
   map d_id (CardDesigns s)"
  by (cases req)
    (simp_all add: returns_snd profile_actions_designs createDesign_ids updateDesign_ids)

text \<open>
  Claim C7, as amended. The system exposes create, update and list operations for both
  Profile and Design, and a delete operation for Profile only: no key of \<^verbatim>\<open>server\<close>
  is a delete operation for Design, and no request removes a design, the \<^verbatim>\<open>id\<close>s
  of the designs stored before a request being the first \<^verbatim>\<open>id\<close>s of the table
  after it.
\<close>

theorem operations_exposed:
  "((\<exists>req. groupOf req = g \<and> entityOf req = e) \<longleftrightarrow> \<not> (g = Delete \<and> e = Design)) \<and>
   take (length (CardDesigns s)) (map d_id (CardDesigns (snd (server context env req s)))) =
     map d_id (CardDesigns s)"
proof
  have ex: "\<exists>req. groupOf req = g \<and> entityOf req = e" if "\<not> (g = Delete \<and> e = Design)"
  proof -
    have "groupOf (CreateProfile ci) = Create \<and> entityOf (CreateProfile ci) = Profile"
      "groupOf (UpdateProfile ui) = Update \<and> entityOf (UpdateProfile ui) = Profile"
      "groupOf ListProfiles = List \<and> entityOf ListProfiles = Profile"
      "groupOf (DeleteProfile xi) = Delete \<and> entityOf (DeleteProfile xi) = Profile"
      "groupOf (CreateDesign di) = Create \<and> entityOf (CreateDesign di) = Design"
      "groupOf (UpdateDesign vi) = Update \<and> entityOf (UpdateDesign vi) = Design"
      "groupOf (ListDesigns li) = List \<and> entityOf (ListDesigns li) = Design"
      for ci ui xi di vi li
      by simp_all
    then show ?thesis
      using that by (cases g; cases e) blast+
  qed
  have "\<not> (g = Delete \<and> e = Design)" if "\<exists>req. groupOf req = g \<and> entityOf req = e"
  proof -
    from that obtain req where "groupOf req = g" "entityOf req = e" by blast
    then show ?thesis by (cases req) auto
  qed
  with ex show "(\<exists>req. groupOf req = g \<and> entityOf req = e) \<longleftrightarrow> \<not> (g = Delete \<and> e = Design)"
    by blast
  show "take (length (CardDesigns s)) (map d_id (CardDesigns (snd (server context env req s)))) =
     map d_id (CardDesigns s)"
    by (rule server_keeps_designs)
qed

theorem operations_exposed_witness:
  "(\<exists>req. groupOf req = Delete \<and> entityOf req = Profile) \<and>
   (\<nexists>req. groupOf req = Delete \<and> entityOf req = Design) \<and>
   take (length (CardDesigns smallStore))
     (map d_id (CardDesigns (snd (server alice clock (CreateDesign (designInput ''D3'' ''A'' None))
        smallStore)))) = [''D1'', ''D2'']"
proof -
  have m: "map d_id (CardDesigns smallStore) = [''D1'', ''D2'']"
    by (simp add: smallStore_def designRow_def)
  show ?thesis
    using operations_exposed [of Delete Profile smallStore alice clock
        "CreateDesign (designInput ''D3'' ''A'' None)"]
      operations_exposed [of Delete Design smallStore alice clock
        "CreateDesign (designInput ''D3'' ''A'' None)"]
    unfolding m by simp
qed

text \<open>
  Claim C7 as stated fails: among the seven keys of \<^verbatim>\<open>server\<close> there is no delete
  operation for Design.
\<close>

theorem no_delete_for_designs_counterexample:
  "\<not> (\<exists>req. entityOf req = Design \<and> groupOf req = Delete)"
proof
  assume "\<exists>req. entityOf req = Design \<and> groupOf req = Delete"
  then obtain req where "entityOf req = Design" "groupOf req = Delete" by blast
  then show False by (cases req) simp_all
qed

section \<open>The primary keys are kept\<close>

text \<open>The stores the theorems above assume, those whose primary keys hold, are the
  stores the actions produce from one of them.\<close>

lemma map_key_update:
  "(\<And>x. key (f x) = key x) \<Longrightarrow> map (key \<circ> (\<lambda>x. if c x then f x else x)) xs = map key xs"
  by (induction xs) simp_all

lemma updateProfiles_keys:
  assumes "\<And>p. p_id (f p) = p_id p"
  shows "primaryKeys (updateProfiles c f s) = primaryKeys s"
  by (simp add: primaryKeys_def updateProfiles_def map_key_update [of p_id f, OF assms])

lemma updateDesigns_keys:
  assumes "\<And>d. d_id (f d) = d_id d"
  shows "primaryKeys (updateDesigns c f s) = primaryKeys s"
  by (simp add: primaryKeys_def updateDesigns_def map_key_update [of d_id f, OF assms])

lemma insertProfile_keys: "primaryKeys s \<Longrightarrow> primaryKeys (snd (insertProfile row s))"
  by (auto simp: primaryKeys_def insertProfile_def)

lemma insertDesign_keys: "primaryKeys s \<Longrightarrow> primaryKeys (snd (insertDesign row s))"
  by (auto simp: primaryKeys_def insertDesign_def)

lemma deleteProfiles_keys: "primaryKeys s \<Longrightarrow> primaryKeys (snd (deleteProfiles c s))"
  by (simp add: primaryKeys_def deleteProfiles_def Let_def distinct_map_filter)

lemma server_primaryKeys:
  assumes "primaryKeys s"
  shows "primaryKeys (snd (server context env req s))"
proof (cases "requireUser context")
  case (Inl e)
  then show ?thesis
    using assms
    by (cases req)
      (simp_all add: returns_snd createProfile_def updateProfile_def listProfiles_def
        deleteProfile_def createDesign_def updateDesign_def listDesigns_def)
next
  case (Inr u)
  show ?thesis
  proof (cases req)
    case (DeleteProfile i)
    have "snd (deleteProfile context i s) =
          snd (deleteProfiles (\<lambda>p. p_id p = dp_id i \<and> p_userId p = user_id u) s)"
      using Inr
      by (cases "deleteProfiles (\<lambda>p. p_id p = dp_id i \<and> p_userId p = user_id u) s")
        (auto simp: deleteProfile_def split: sum.splits option.splits)
    then show ?thesis
      using assms DeleteProfile by (simp add: returns_snd deleteProfiles_keys)
  qed (use assms Inr in \<open>simp_all add: returns_snd createProfile_def updateProfile_def
        listProfiles_def createDesign_def updateDesign_def listDesigns_def Let_def
        insertProfile_keys insertDesign_keys updateProfiles_keys updateDesigns_keys
        clearDefault_simps clearPrimary_simps setProfile_keeps setDesign_keeps
        split: option.splits\<close>)
qed

end
